theory Spec2Isabelle
  imports Complex_Main "HOL-Library.Word"
begin

section \<open>Values, errors and the world outside the two modules\<close>

text \<open>
  The development embeds \<^verbatim>\<open>parse_files.py\<close> (\<^verbatim>\<open>get_image_para\<close>,
  \<^verbatim>\<open>get_image_data\<close>) and \<^verbatim>\<open>slippy/data/insar.py\<close>
  (\<^verbatim>\<open>InSAR.read_from_gamma\<close>, \<^verbatim>\<open>InSAR.__phase2los\<close>).

  Python exceptions are values of \<open>error\<close>; a function that can raise returns
  \<open>error + 'a\<close> with \<open>Inl\<close> for the exception. \<open>UnboundLocalError\<close> carries the
  name of the local variable that was read before any assignment.
\<close>

datatype error =
    IOError
  | ValueError
  | IndexError
  | ZeroDivisionError
  | StructError
  | UnboundLocalError string

text \<open>Sequencing: the first exception raised ends the computation.\<close>

fun bind_err :: "error + 'a \<Rightarrow> ('a \<Rightarrow> error + 'b) \<Rightarrow> error + 'b" where
  "bind_err (Inl e) f = Inl e"
| "bind_err (Inr x) f = f x"

text \<open>
  A Python or NumPy float is either not-a-number or a number. Numbers are idealised as
  reals: rounding, overflow and the two infinities are not represented. Every arithmetic
  operation of the source sends a not-a-number operand to not-a-number, which is what
  \<open>fop1\<close> and \<open>fop2\<close> do.
\<close>

datatype pyfloat = NaN | Fin real

fun fop1 :: "(real \<Rightarrow> real) \<Rightarrow> pyfloat \<Rightarrow> pyfloat" where
  "fop1 f NaN = NaN"
| "fop1 f (Fin x) = Fin (f x)"

fun fop2 :: "(real \<Rightarrow> real \<Rightarrow> real) \<Rightarrow> pyfloat \<Rightarrow> pyfloat \<Rightarrow> pyfloat" where
  "fop2 f (Fin x) (Fin y) = Fin (f x y)"
| "fop2 f _ _ = NaN"

abbreviation fadd :: "pyfloat \<Rightarrow> pyfloat \<Rightarrow> pyfloat" where
  "fadd \<equiv> fop2 (+)"

abbreviation fsub :: "pyfloat \<Rightarrow> pyfloat \<Rightarrow> pyfloat" where
  "fsub \<equiv> fop2 (-)"

abbreviation fmul :: "pyfloat \<Rightarrow> pyfloat \<Rightarrow> pyfloat" where
  "fmul \<equiv> fop2 (*)"

abbreviation fdiv :: "pyfloat \<Rightarrow> pyfloat \<Rightarrow> pyfloat" where
  "fdiv \<equiv> fop2 (/)"

definition of_pyint :: "int \<Rightarrow> pyfloat" where
  "of_pyint n = Fin (real_of_int n)"

text \<open>\<^verbatim>\<open>x == 0\<close> on floats: false for not-a-number.\<close>

fun is_zero :: "pyfloat \<Rightarrow> bool" where
  "is_zero NaN = False"
| "is_zero (Fin x) = (x = 0)"

type_synonym byte = "8 word"

text \<open>
  The file system as the two modules see it: a path opens as a text file (its lines, each
  with its line end), as a binary file (its bytes), or not at all (\<open>None\<close>: \<^verbatim>\<open>open\<close>
  raises \<^verbatim>\<open>IOError\<close>).
\<close>

record filesystem =
  fs_text :: "string \<Rightarrow> string list option"
  fs_bin :: "string \<Rightarrow> byte list option"

text \<open>
  What the code calls outside the repository's two source files is a parameter of the
  model: Python's \<^verbatim>\<open>int(str)\<close> and \<^verbatim>\<open>float(str)\<close> (\<open>None\<close>: \<^verbatim>\<open>ValueError\<close>),
  \<^verbatim>\<open>struct.unpack('>f', chunk)[0]\<close> on a chunk of four bytes, SciPy's
  \<^verbatim>\<open>interpolate.interp2d(cols, rows, z, kind='cubic')\<close>, which fits a surface that is
  then evaluated at a column and a row coordinate, and \<^verbatim>\<open>GeoTrans.ll2xy\<close>, the
  projection of the parent class, whose source is not part of the two files.
\<close>

record lib =
  py_int :: "string \<Rightarrow> int option"
  py_float :: "string \<Rightarrow> pyfloat option"
  unpack_f :: "byte list \<Rightarrow> pyfloat"
  interp2d :: "int list \<Rightarrow> int list \<Rightarrow> pyfloat list list \<Rightarrow> error + (int \<Rightarrow> int \<Rightarrow> pyfloat)"
  ll2xy :: "pyfloat list \<Rightarrow> pyfloat list \<Rightarrow> error + (pyfloat list \<times> pyfloat list)"

section \<open>String operations of the parameter-file scan\<close>

text \<open>
  \<^verbatim>\<open>str.isspace\<close>, which \<^verbatim>\<open>strip\<close> and \<^verbatim>\<open>split\<close> use. A character of the model is
  a code point below 256. The white space there is tab to carriage return, the four
  separators \<^verbatim>\<open>0x1c\<close> to \<^verbatim>\<open>0x1f\<close>, the space, the next-line control \<^verbatim>\<open>0x85\<close> and
  the no-break space \<^verbatim>\<open>0xa0\<close>.
\<close>

definition is_space :: "char \<Rightarrow> bool" where
  "is_space ch =
     (let n = (of_char ch :: nat)
      in (9 \<le> n \<and> n \<le> 13) \<or> (28 \<le> n \<and> n \<le> 31) \<or> n = 32 \<or> n = 133 \<or> n = 160)"

definition strip :: "string \<Rightarrow> string" where
  "strip s = rev (dropWhile is_space (rev (dropWhile is_space s)))"

definition startswith :: "string \<Rightarrow> string \<Rightarrow> bool" where
  "startswith s p = (take (length p) s = p)"

text \<open>\<^verbatim>\<open>s.split(':')\<close>: the pieces between the separators, empty pieces kept.\<close>

fun split_on :: "char \<Rightarrow> string \<Rightarrow> string list" where
  "split_on sep [] = [[]]"
| "split_on sep (x # xs) =
     (if x = sep then [] # split_on sep xs
      else (case split_on sep xs of
              [] \<Rightarrow> [[x]]
            | p # ps \<Rightarrow> (x # p) # ps))"

text \<open>\<^verbatim>\<open>s.split()\<close>: the maximal runs of non-space characters. \<open>cur\<close> is the run being
  read, reversed.\<close>

fun split_ws_from :: "string \<Rightarrow> string \<Rightarrow> string list" where
  "split_ws_from cur [] = (if cur = [] then [] else [rev cur])"
| "split_ws_from cur (x # xs) =
     (if is_space x
      then (if cur = [] then split_ws_from [] xs else rev cur # split_ws_from [] xs)
      else split_ws_from (x # cur) xs)"

definition split_ws :: "string \<Rightarrow> string list" where
  "split_ws s = split_ws_from [] s"

text \<open>\<^verbatim>\<open>xs[1]\<close> and \<^verbatim>\<open>xs[0]\<close> with their \<^verbatim>\<open>IndexError\<close>.\<close>

fun index1 :: "'a list \<Rightarrow> error + 'a" where
  "index1 (_ # y # _) = Inr y"
| "index1 _ = Inl IndexError"

fun index0 :: "'a list \<Rightarrow> error + 'a" where
  "index0 (x # _) = Inr x"
| "index0 _ = Inl IndexError"

text \<open>\<^verbatim>\<open>int(line.strip().split(':')[1])\<close>\<close>

definition int_field :: "lib \<Rightarrow> string \<Rightarrow> error + int" where
  "int_field L line =
     (case index1 (split_on CHR '':'' (strip line)) of
        Inl e \<Rightarrow> Inl e
      | Inr field \<Rightarrow> (case py_int L field of None \<Rightarrow> Inl ValueError | Some n \<Rightarrow> Inr n))"

text \<open>\<^verbatim>\<open>float(line.strip().split(':')[1].split()[0])\<close>\<close>

definition float_field :: "lib \<Rightarrow> string \<Rightarrow> error + pyfloat" where
  "float_field L line =
     (case index1 (split_on CHR '':'' (strip line)) of
        Inl e \<Rightarrow> Inl e
      | Inr field \<Rightarrow>
          (case index0 (split_ws field) of
             Inl e \<Rightarrow> Inl e
           | Inr tok \<Rightarrow> (case py_float L tok of None \<Rightarrow> Inl ValueError | Some x \<Rightarrow> Inr x)))"

text \<open>\<^verbatim>\<open>line.strip().split(':')[1].strip()\<close>\<close>

definition name_field :: "string \<Rightarrow> error + string" where
  "name_field line =
     (case index1 (split_on CHR '':'' (strip line)) of
        Inl e \<Rightarrow> Inl e
      | Inr field \<Rightarrow> Inr (strip field))"

text \<open>
  The local variables that the scan of a parameter file binds, one per key of the file;
  \<open>None\<close> is a variable that no line has assigned. \<^verbatim>\<open>get_image_para\<close> calls the first
  two \<^verbatim>\<open>width\<close> and \<^verbatim>\<open>nlines\<close>, \<^verbatim>\<open>read_from_gamma\<close> calls them
  \<^verbatim>\<open>range_samples\<close> and \<^verbatim>\<open>azimuth_lines\<close> and the last one \<^verbatim>\<open>ellps_name\<close>.
\<close>

record par_vars =
  v_width :: "int option"
  v_nlines :: "int option"
  v_corner_lat :: "pyfloat option"
  v_corner_lon :: "pyfloat option"
  v_post_lat :: "pyfloat option"
  v_post_lon :: "pyfloat option"
  v_ellipsoid_name :: "string option"

definition unbound :: par_vars where
  "unbound = \<lparr>v_width = None, v_nlines = None, v_corner_lat = None, v_corner_lon = None,
     v_post_lat = None, v_post_lon = None, v_ellipsoid_name = None\<rparr>"

section \<open>parse\_files.py\<close>

text \<open>One iteration of \<^verbatim>\<open>for line in file\<close> in \<^verbatim>\<open>get_image_para\<close>: the
  \<^verbatim>\<open>if\<close>/\<^verbatim>\<open>elif\<close> chain on the line's prefix.\<close>

definition para_line :: "lib \<Rightarrow> string \<Rightarrow> par_vars \<Rightarrow> error + par_vars" where
  "para_line L line v =
     (if startswith line ''width:'' then
        bind_err (int_field L line) (\<lambda>n. Inr (v\<lparr>v_width := Some n\<rparr>))
      else if startswith line ''nlines:'' then
        bind_err (int_field L line) (\<lambda>n. Inr (v\<lparr>v_nlines := Some n\<rparr>))
      else if startswith line ''corner_lat:'' then
        bind_err (float_field L line) (\<lambda>x. Inr (v\<lparr>v_corner_lat := Some x\<rparr>))
      else if startswith line ''corner_lon:'' then
        bind_err (float_field L line) (\<lambda>x. Inr (v\<lparr>v_corner_lon := Some x\<rparr>))
      else if startswith line ''post_lat:'' then
        bind_err (float_field L line) (\<lambda>x. Inr (v\<lparr>v_post_lat := Some x\<rparr>))
      else if startswith line ''post_lon:'' then
        bind_err (float_field L line) (\<lambda>x. Inr (v\<lparr>v_post_lon := Some x\<rparr>))
      else Inr v)"

fun para_scan :: "lib \<Rightarrow> string list \<Rightarrow> par_vars \<Rightarrow> error + par_vars" where
  "para_scan L [] v = Inr v"
| "para_scan L (line # rest) v = bind_err (para_line L line v) (para_scan L rest)"

text \<open>The list \<^verbatim>\<open>[width, nlines, corner_lat, corner_lon, post_lat, post_lon, post_arc,
  post_utm]\<close> that \<^verbatim>\<open>get_image_para\<close> returns and \<^verbatim>\<open>get_image_data\<close> reads by
  position; the fields carry the names \<^verbatim>\<open>get_image_data\<close> gives the positions.\<close>

record parameters =
  range_samples :: int
  azimuth_lines :: int
  corner_lat :: pyfloat
  corner_lon :: pyfloat
  post_lat :: pyfloat
  post_lon :: pyfloat
  post_arc :: pyfloat
  post_utm :: pyfloat

text \<open>Reading a local variable: \<^verbatim>\<open>UnboundLocalError\<close> when it was never assigned.\<close>

definition local_var :: "string \<Rightarrow> 'a option \<Rightarrow> error + 'a" where
  "local_var name x = (case x of None \<Rightarrow> Inl (UnboundLocalError name) | Some y \<Rightarrow> Inr y)"

text \<open>
  \<^verbatim>\<open>get_image_para(par_file)\<close>. \<open>Inr None\<close> is the return of \<^verbatim>\<open>None\<close> after the
  \<^verbatim>\<open>except IOError\<close> branch has printed its message. After the scan, \<^verbatim>\<open>post_lon\<close> is
  read first (\<^verbatim>\<open>post_arc = post_lon * 3600\<close>), the others when the list is built, left
  to right.
\<close>

definition get_image_para :: "lib \<Rightarrow> filesystem \<Rightarrow> string \<Rightarrow> error + parameters option" where
  "get_image_para L fs par_file =
     (case fs_text fs par_file of
        None \<Rightarrow> Inr None
      | Some content \<Rightarrow>
          bind_err (para_scan L content unbound) (\<lambda>v.
          bind_err (local_var ''post_lon'' (v_post_lon v)) (\<lambda>plon.
            let parc = fmul plon (Fin 3600);
                putm = fdiv (fdiv (fmul parc (Fin 40075017)) (Fin 360)) (Fin 3600) in
          bind_err (local_var ''width'' (v_width v)) (\<lambda>w.
          bind_err (local_var ''nlines'' (v_nlines v)) (\<lambda>n.
          bind_err (local_var ''corner_lat'' (v_corner_lat v)) (\<lambda>clat.
          bind_err (local_var ''corner_lon'' (v_corner_lon v)) (\<lambda>clon.
          bind_err (local_var ''post_lat'' (v_post_lat v)) (\<lambda>plat.
            Inr (Some \<lparr>range_samples = w, azimuth_lines = n, corner_lat = clat,
              corner_lon = clon, post_lat = plat, post_lon = plon, post_arc = parc,
              post_utm = putm\<rparr>)))))))))"

text \<open>\<^verbatim>\<open>np.arange(0, stop, step)\<close> on integers, \<open>step\<close> not zero: the multiples of the
  step from 0 up to, and without, \<open>stop\<close>; there are \<open>\<lceil>stop / step\<rceil>\<close> of them, none when
  that is negative.\<close>

definition arange :: "int \<Rightarrow> int \<Rightarrow> int list" where
  "arange stop step = map (\<lambda>k. int k * step) [0..<nat (- ((- stop) div step))]"

text \<open>\<^verbatim>\<open>struct.unpack('>f', file.read(4))[0]\<close>, \<open>n\<close> times in a row: \<^verbatim>\<open>read\<close> returns
  the next four bytes, or fewer at the end of the file, and \<^verbatim>\<open>unpack\<close> raises
  \<^verbatim>\<open>struct.error\<close> on a chunk that is not four bytes long.\<close>

fun read_floats :: "(byte list \<Rightarrow> pyfloat) \<Rightarrow> nat \<Rightarrow> byte list \<Rightarrow> error + pyfloat list" where
  "read_floats u 0 bytes = Inr []"
| "read_floats u (Suc n) bytes =
     (let chunk = take 4 bytes in
      if length chunk \<noteq> 4 then Inl StructError
      else bind_err (read_floats u n (drop 4 bytes)) (\<lambda>vs. Inr (u chunk # vs)))"

text \<open>The array that the two loops \<^verbatim>\<open>for i in range(azimuth_lines): for j in
  range(range_samples)\<close> fill: \<^verbatim>\<open>arr[j][i]\<close> is float number \<open>i * range_samples + j\<close> of
  the file. The array has \<open>range_samples\<close> rows of \<open>azimuth_lines\<close> entries.\<close>

definition fill :: "nat \<Rightarrow> nat \<Rightarrow> 'a list \<Rightarrow> 'a list list" where
  "fill w h flat = map (\<lambda>j. map (\<lambda>i. flat ! (i * w + j)) [0..<h]) [0..<w]"

text \<open>\<^verbatim>\<open>except IOError\<close> around a body that returns a value: the handler prints and the
  function returns \<^verbatim>\<open>None\<close>.\<close>

definition except_IOError :: "error + 'a option \<Rightarrow> error + 'a option" where
  "except_IOError r = (case r of Inl e \<Rightarrow> (if e = IOError then Inr None else Inl e) | Inr x \<Rightarrow> Inr x)"

text \<open>A NumPy array of floats with one or with two dimensions.\<close>

datatype ndarray = Array1 "pyfloat list" | Array2 "pyfloat list list"

text \<open>
  The call \<^verbatim>\<open>interp_func(new_cols, new_rows)\<close> of the fitted surface. SciPy raises
  \<^verbatim>\<open>ValueError\<close> when a coordinate array is empty. Otherwise it evaluates the surface
  on the grid, one row for each element of \<^verbatim>\<open>new_rows\<close> and in it one value for each
  element of \<^verbatim>\<open>new_cols\<close>, and returns the grid, or, when the grid has a single row,
  that row as a one-dimensional array.
\<close>

definition interp_call :: "(int \<Rightarrow> int \<Rightarrow> pyfloat) \<Rightarrow> int list \<Rightarrow> int list \<Rightarrow> error + ndarray" where
  "interp_call interp_func new_cols new_rows =
     (if new_cols = [] \<or> new_rows = [] then Inl ValueError
      else (case map (\<lambda>r. map (\<lambda>c. interp_func c r) new_cols) new_rows of
              [row] \<Rightarrow> Inr (Array1 row)
            | z \<Rightarrow> Inr (Array2 z)))"

text \<open>
  \<^verbatim>\<open>get_image_data(image_file, parameters, resample_factor)\<close>; the preview plot
  (\<^verbatim>\<open>plot_flag\<close>) and the unused \<^verbatim>\<open>swap_bytes\<close> are left out. \<^verbatim>\<open>np.zeros\<close> raises
  \<^verbatim>\<open>ValueError\<close> on a negative dimension.
\<close>

definition get_image_data ::
  "lib \<Rightarrow> filesystem \<Rightarrow> string \<Rightarrow> parameters \<Rightarrow> int \<Rightarrow> error + (ndarray \<times> parameters) option" where
  "get_image_data L fs image_file parameters resample_factor =
     except_IOError
     (case fs_bin fs image_file of
        None \<Rightarrow> Inl IOError
      | Some content \<Rightarrow>
          if range_samples parameters < 0 \<or> azimuth_lines parameters < 0 then Inl ValueError
          else
            bind_err (read_floats (unpack_f L)
              (nat (azimuth_lines parameters) * nat (range_samples parameters)) content) (\<lambda>flat.
            let image_arry = fill (nat (range_samples parameters)) (nat (azimuth_lines parameters)) flat in
            if resample_factor = 1 then
              Inr (Some (Array2 image_arry,
                \<lparr>range_samples = range_samples parameters, azimuth_lines = azimuth_lines parameters,
                 corner_lat = corner_lat parameters, corner_lon = corner_lon parameters,
                 post_lat = post_lat parameters, post_lon = post_lon parameters,
                 post_arc = post_arc parameters, post_utm = post_utm parameters\<rparr>))
            else if resample_factor = 0 then Inl ZeroDivisionError
            else
              let new_range_samples = range_samples parameters div resample_factor;
                  new_azimuth_lines = azimuth_lines parameters div resample_factor;
                  new_post_lat = fmul (post_lat parameters) (of_pyint resample_factor);
                  new_post_lon = fmul (post_lon parameters) (of_pyint resample_factor);
                  new_post_arc = fmul (post_arc parameters) (of_pyint resample_factor);
                  new_post_utm = fmul (post_utm parameters) (of_pyint resample_factor);
                  rows = arange (range_samples parameters) 1;
                  cols = arange (azimuth_lines parameters) 1
              in
              bind_err (interp2d L cols rows image_arry) (\<lambda>interp_func.
              let new_rows = arange (range_samples parameters) resample_factor;
                  new_cols = arange (azimuth_lines parameters) resample_factor
              in
              bind_err (interp_call interp_func new_cols new_rows) (\<lambda>new_image_arry.
                Inr (Some (new_image_arry,
                  \<lparr>range_samples = new_range_samples, azimuth_lines = new_azimuth_lines,
                   corner_lat = corner_lat parameters, corner_lon = corner_lon parameters,
                   post_lat = new_post_lat, post_lon = new_post_lon,
                   post_arc = new_post_arc, post_utm = new_post_utm\<rparr>))))))"

section \<open>slippy/data/insar.py\<close>

text \<open>The loop body of the scan in \<^verbatim>\<open>read_from_gamma\<close>: the chain of
  \<^verbatim>\<open>get_image_para\<close> with one more branch, for \<^verbatim>\<open>ellipsoid_name:\<close>.\<close>

definition gamma_line :: "lib \<Rightarrow> string \<Rightarrow> par_vars \<Rightarrow> error + par_vars" where
  "gamma_line L line v =
     (if startswith line ''width:'' then
        bind_err (int_field L line) (\<lambda>n. Inr (v\<lparr>v_width := Some n\<rparr>))
      else if startswith line ''nlines:'' then
        bind_err (int_field L line) (\<lambda>n. Inr (v\<lparr>v_nlines := Some n\<rparr>))
      else if startswith line ''corner_lat:'' then
        bind_err (float_field L line) (\<lambda>x. Inr (v\<lparr>v_corner_lat := Some x\<rparr>))
      else if startswith line ''corner_lon:'' then
        bind_err (float_field L line) (\<lambda>x. Inr (v\<lparr>v_corner_lon := Some x\<rparr>))
      else if startswith line ''post_lat:'' then
        bind_err (float_field L line) (\<lambda>x. Inr (v\<lparr>v_post_lat := Some x\<rparr>))
      else if startswith line ''post_lon:'' then
        bind_err (float_field L line) (\<lambda>x. Inr (v\<lparr>v_post_lon := Some x\<rparr>))
      else if startswith line ''ellipsoid_name:'' then
        bind_err (name_field line) (\<lambda>x. Inr (v\<lparr>v_ellipsoid_name := Some x\<rparr>))
      else Inr v)"

fun gamma_scan :: "lib \<Rightarrow> string list \<Rightarrow> par_vars \<Rightarrow> error + par_vars" where
  "gamma_scan L [] v = Inr v"
| "gamma_scan L (line # rest) v = bind_err (gamma_line L line v) (gamma_scan L rest)"

text \<open>
  The first \<^verbatim>\<open>try\<close> block of \<^verbatim>\<open>read_from_gamma\<close>. When the file does not open, the
  handler prints and the method goes on with no variable bound. After the scan the block
  reads \<^verbatim>\<open>post_lon\<close>, then \<^verbatim>\<open>range_samples\<close> and \<^verbatim>\<open>azimuth_lines\<close> for its
  message.
\<close>

definition gamma_para :: "lib \<Rightarrow> filesystem \<Rightarrow> string \<Rightarrow> error + par_vars" where
  "gamma_para L fs para_file =
     (case fs_text fs para_file of
        None \<Rightarrow> Inr unbound
      | Some content \<Rightarrow>
          bind_err (gamma_scan L content unbound) (\<lambda>v.
          bind_err (local_var ''post_lon'' (v_post_lon v)) (\<lambda>_.
          bind_err (local_var ''range_samples'' (v_width v)) (\<lambda>_.
          bind_err (local_var ''azimuth_lines'' (v_nlines v)) (\<lambda>_. Inr v)))))"

text \<open>The three files read in step: one chunk of each per pixel, each unpacked before the
  next is read.\<close>

fun read_pixels ::
  "(byte list \<Rightarrow> pyfloat) \<Rightarrow> nat \<Rightarrow> byte list \<Rightarrow> byte list \<Rightarrow> byte list \<Rightarrow>
     error + (pyfloat \<times> pyfloat \<times> pyfloat) list" where
  "read_pixels u 0 f1 f2 f3 = Inr []"
| "read_pixels u (Suc n) f1 f2 f3 =
     (if length (take 4 f1) \<noteq> 4 then Inl StructError
      else if length (take 4 f2) \<noteq> 4 then Inl StructError
      else if length (take 4 f3) \<noteq> 4 then Inl StructError
      else bind_err (read_pixels u n (drop 4 f1) (drop 4 f2) (drop 4 f3)) (\<lambda>ps.
             Inr ((u (take 4 f1), u (take 4 f2), u (take 4 f3)) # ps)))"

text \<open>\<^verbatim>\<open>np.where(phase == 0, np.nan, a)\<close> on two arrays of one shape.\<close>

definition where_zero_nan :: "pyfloat list list \<Rightarrow> pyfloat list list \<Rightarrow> pyfloat list list" where
  "where_zero_nan phase a = map2 (map2 (\<lambda>p x. if is_zero p then NaN else x)) phase a"

text \<open>\<^verbatim>\<open>a.transpose().reshape(-1, 1)\<close> for an array of \<open>w\<close> rows of \<open>h\<close> entries: the
  column of the entries \<^verbatim>\<open>a[j][i]\<close>, \<open>i\<close> outer and \<open>j\<close> inner.\<close>

definition transpose_flat :: "nat \<Rightarrow> nat \<Rightarrow> 'a list list \<Rightarrow> 'a list" where
  "transpose_flat w h a = concat (map (\<lambda>i. map (\<lambda>j. a ! j ! i) [0..<w]) [0..<h])"

text \<open>\<^verbatim>\<open>xs[::step]\<close>: every \<open>step\<close>-th element from the first one, or for a negative
  step every \<open>|step|\<close>-th element from the last one backwards. (A zero step is never
  reached: the division before it has raised.)\<close>

definition stride :: "int \<Rightarrow> 'a list \<Rightarrow> 'a list" where
  "stride step xs =
     (let n = length xs in
      if step > 0
      then map (\<lambda>k. xs ! (k * nat step)) [0..<(n + nat step - 1) div nat step]
      else map (\<lambda>k. xs ! (n - 1 - k * nat (- step))) [0..<(n + nat (- step) - 1) div nat (- step)])"

text \<open>\<^verbatim>\<open>scipy.constants.c\<close>, in metres per second.\<close>

definition speed_of_light :: real where
  "speed_of_light = 299792458"

text \<open>The \<^verbatim>\<open>if\<close>/\<^verbatim>\<open>elif\<close> chain of \<^verbatim>\<open>__phase2los\<close> that picks the radar frequency,
  in Hz, or raises \<^verbatim>\<open>ValueError\<close>.\<close>

definition radar_freq :: "string \<Rightarrow> error + real" where
  "radar_freq satellite =
     (if satellite \<in> set [''sentinel-1'', ''Sentinel-1'', ''s1'', ''S1''] then Inr (540500045433 / 100)
      else if satellite \<in> set [''ALOS'', ''alos''] then Inr 1270000000
      else if satellite = ''ALOS-2/U'' then Inr 1257500000
      else if satellite = ''ALOS-2/{F,W}'' then Inr 1236500000
      else Inl ValueError)"

text \<open>\<^verbatim>\<open>- (phase / 2 / np.pi * wavelength / 2)\<close> on one element.\<close>

definition los_of :: "real \<Rightarrow> pyfloat \<Rightarrow> pyfloat" where
  "los_of wavelength p =
     fop1 uminus (fdiv (fmul (fdiv (fdiv p (Fin 2)) (Fin pi)) (Fin wavelength)) (Fin 2))"

text \<open>\<^verbatim>\<open>__phase2los(phase, satellite)\<close> on a column of phases.\<close>

definition phase2los :: "pyfloat list \<Rightarrow> string \<Rightarrow> error + pyfloat list" where
  "phase2los phase satellite =
     bind_err (radar_freq satellite) (\<lambda>freq.
       let wavelength = speed_of_light / freq in Inr (map (los_of wavelength) phase))"

text \<open>\<^verbatim>\<open>np.degrees\<close>\<close>

definition degrees :: "pyfloat \<Rightarrow> pyfloat" where
  "degrees a = fmul a (Fin (180 / pi))"

text \<open>\<^verbatim>\<open>np.linspace(start, stop, num)\<close>: \<open>num\<close> values \<open>k * step + start\<close> with
  \<open>step = (stop - start) / (num - 1)\<close> (for a single value, \<open>0 * (stop - start) + start\<close>),
  and the last of several values set to \<open>stop\<close>.\<close>

definition linspace :: "pyfloat \<Rightarrow> pyfloat \<Rightarrow> nat \<Rightarrow> pyfloat list" where
  "linspace start stop num =
     (let dv = num - 1;
          delta = fsub stop start;
          y = (if dv > 0
               then map (\<lambda>k. fadd (fmul (Fin (real k)) (fdiv delta (Fin (real dv)))) start) [0..<num]
               else map (\<lambda>k. fadd (fmul (Fin (real k)) delta) start) [0..<num])
      in if num > 1 then y[num - 1 := stop] else y)"

text \<open>\<^verbatim>\<open>np.meshgrid(lons, lats)\<close>: two arrays of \<open>len(lats)\<close> rows of \<open>len(lons)\<close>
  entries; the first repeats \<open>lons\<close> in every row, the second fills row \<open>i\<close> with
  \<open>lats[i]\<close>.\<close>

definition meshgrid :: "'a list \<Rightarrow> 'a list \<Rightarrow> 'a list list \<times> 'a list list" where
  "meshgrid lons lats = (replicate (length lats) lons, map (\<lambda>lat. replicate (length lons) lat) lats)"

text \<open>The coordinates along one axis, \<^verbatim>\<open>np.linspace(corner, corner + (n - 1) * post, n)\<close>,
  and the three lines \<^verbatim>\<open>lats = np.linspace(...)\<close>, \<^verbatim>\<open>lons = np.linspace(...)\<close>,
  \<^verbatim>\<open>Lons, Lats = np.meshgrid(lons, lats)\<close> of \<^verbatim>\<open>read_from_gamma\<close>.\<close>

definition gamma_axis :: "pyfloat \<Rightarrow> pyfloat \<Rightarrow> int \<Rightarrow> pyfloat list" where
  "gamma_axis corner post n = linspace corner (fadd corner (fmul (of_pyint (n - 1)) post)) (nat n)"

definition gamma_mesh ::
  "pyfloat \<Rightarrow> pyfloat \<Rightarrow> pyfloat \<Rightarrow> pyfloat \<Rightarrow> int \<Rightarrow> int \<Rightarrow> pyfloat list list \<times> pyfloat list list" where
  "gamma_mesh c_lat p_lat c_lon p_lon n_range n_azimuth =
     (let lats = gamma_axis c_lat p_lat n_azimuth;
          lons = gamma_axis c_lon p_lon n_range
      in meshgrid lons lats)"

text \<open>One entry of \<^verbatim>\<open>self.data\<close>: \<^verbatim>\<open>{"value": ..., "unit": ...}\<close>, the value a column
  of floats.\<close>

record channel =
  ch_value :: "pyfloat list"
  ch_unit :: string

type_synonym dataset = "string \<rightharpoonup> channel"

text \<open>The two attributes of an \<^verbatim>\<open>InSAR\<close> instance that \<^verbatim>\<open>read_from_gamma\<close> assigns;
  \<open>None\<close> is Python's \<^verbatim>\<open>None\<close>, their value after \<^verbatim>\<open>__init__\<close>.\<close>

record insar =
  data :: "dataset option"
  data_para :: "(string \<rightharpoonup> string) option"

text \<open>
  The body of the second \<^verbatim>\<open>try\<close> block of \<^verbatim>\<open>read_from_gamma\<close> up to the
  assignments: it opens the three rasters, reads them, masks, flattens, decimates,
  converts, builds the coordinates and projects them, and yields the dictionary that
  becomes \<^verbatim>\<open>self.data\<close>. \<open>v\<close> holds the local variables that the first block left.
  \<^verbatim>\<open>int(range_samples / downsample)\<close> in the message after the loop raises
  \<^verbatim>\<open>ZeroDivisionError\<close> for a zero \<^verbatim>\<open>downsample\<close>.
\<close>

definition gamma_dataset ::
  "lib \<Rightarrow> filesystem \<Rightarrow> par_vars \<Rightarrow> string \<Rightarrow> string \<Rightarrow> string \<Rightarrow> string \<Rightarrow> int \<Rightarrow> error + dataset" where
  "gamma_dataset L fs v phase_file azi_file inc_file satellite downsample =
     (case fs_bin fs phase_file of None \<Rightarrow> Inl IOError | Some f1 \<Rightarrow>
     (case fs_bin fs azi_file of None \<Rightarrow> Inl IOError | Some f2 \<Rightarrow>
     (case fs_bin fs inc_file of None \<Rightarrow> Inl IOError | Some f3 \<Rightarrow>
        bind_err (local_var ''range_samples'' (v_width v)) (\<lambda>range_samples.
        bind_err (local_var ''azimuth_lines'' (v_nlines v)) (\<lambda>azimuth_lines.
        if range_samples < 0 \<or> azimuth_lines < 0 then Inl ValueError
        else
          let w = nat range_samples; h = nat azimuth_lines in
          bind_err (read_pixels (unpack_f L) (h * w) f1 f2 f3) (\<lambda>pixels.
          if downsample = 0 then Inl ZeroDivisionError
          else
            let phase = fill w h (map fst pixels);
                azimuth = fill w h (map (fst \<circ> snd) pixels);
                incidence = fill w h (map (snd \<circ> snd) pixels);
                azimuth = where_zero_nan phase azimuth;
                incidence = where_zero_nan phase incidence;
                phase = where_zero_nan phase phase;
                phase = stride downsample (transpose_flat w h phase)
            in
            bind_err (phase2los phase satellite) (\<lambda>los.
            let azimuth = stride downsample (transpose_flat w h azimuth);
                incidence = stride downsample (transpose_flat w h incidence);
                azimuth = map (\<lambda>a. fsub (Fin (- 180)) (degrees a)) azimuth;
                incidence = map (\<lambda>a. fsub (Fin 90) (degrees a)) incidence
            in
            bind_err (local_var ''corner_lat'' (v_corner_lat v)) (\<lambda>corner_lat.
            bind_err (local_var ''post_lat'' (v_post_lat v)) (\<lambda>post_lat.
            bind_err (local_var ''corner_lon'' (v_corner_lon v)) (\<lambda>corner_lon.
            bind_err (local_var ''post_lon'' (v_post_lon v)) (\<lambda>post_lon.
            let mesh = gamma_mesh corner_lat post_lat corner_lon post_lon range_samples azimuth_lines;
                Lons = stride downsample (concat (fst mesh));
                Lats = stride downsample (concat (snd mesh))
            in
            bind_err (ll2xy L Lons Lats) (\<lambda>(utm_x, utm_y).
              Inr [''lon'' \<mapsto> \<lparr>ch_value = Lons, ch_unit = ''degree''\<rparr>,
                   ''lat'' \<mapsto> \<lparr>ch_value = Lats, ch_unit = ''degree''\<rparr>,
                   ''x'' \<mapsto> \<lparr>ch_value = utm_x, ch_unit = ''km''\<rparr>,
                   ''y'' \<mapsto> \<lparr>ch_value = utm_y, ch_unit = ''km''\<rparr>,
                   ''phase'' \<mapsto> \<lparr>ch_value = phase, ch_unit = ''radian''\<rparr>,
                   ''los'' \<mapsto> \<lparr>ch_value = los, ch_unit = ''m''\<rparr>,
                   ''azi'' \<mapsto> \<lparr>ch_value = azimuth, ch_unit = ''degree''\<rparr>,
                   ''inc'' \<mapsto> \<lparr>ch_value = incidence, ch_unit = ''degree''\<rparr>]))))))))))))"

text \<open>How a call of \<^verbatim>\<open>read_from_gamma\<close> ends: an exception reaches the caller; or the
  \<^verbatim>\<open>except IOError\<close> handler of the second block prints its message and the method
  returns; or the method runs to its last assignment and returns.\<close>

datatype outcome = Raised error | Caught_IOError | Completed

text \<open>
  \<^verbatim>\<open>read_from_gamma(self, para_file, phase_file, azi_file, inc_file, satellite,
  downsample)\<close>: the outcome and the instance after the call. \<^verbatim>\<open>self.data\<close> is assigned
  first; the dictionary for \<^verbatim>\<open>self.data_para\<close> then reads \<^verbatim>\<open>ellps_name\<close>.
\<close>

definition read_from_gamma ::
  "lib \<Rightarrow> filesystem \<Rightarrow> insar \<Rightarrow> string \<Rightarrow> string \<Rightarrow> string \<Rightarrow> string \<Rightarrow> string \<Rightarrow> int \<Rightarrow> outcome \<times> insar" where
  "read_from_gamma L fs self para_file phase_file azi_file inc_file satellite downsample =
     (case gamma_para L fs para_file of
        Inl e \<Rightarrow> (Raised e, self)
      | Inr v \<Rightarrow>
          (case gamma_dataset L fs v phase_file azi_file inc_file satellite downsample of
             Inl e \<Rightarrow> (if e = IOError then (Caught_IOError, self) else (Raised e, self))
           | Inr d \<Rightarrow>
               (let self1 = self\<lparr>data := Some d\<rparr> in
                case local_var ''ellps_name'' (v_ellipsoid_name v) of
                  Inl e \<Rightarrow> (Raised e, self1)
                | Inr ellps_name \<Rightarrow>
                    (Completed,
                     self1\<lparr>data_para := Some [''satellite'' \<mapsto> satellite, ''datum_name'' \<mapsto> ellps_name]\<rparr>))))"

section \<open>Notions of the specification\<close>

text \<open>The six keys that the specification calls required, each with its colon, and
  whether some line of a parameter file starts with a key.\<close>

definition required_keys :: "string list" where
  "required_keys = [''width:'', ''nlines:'', ''corner_lat:'', ''corner_lon:'', ''post_lat:'', ''post_lon:'']"

definition has_key :: "string \<Rightarrow> string list \<Rightarrow> bool" where
  "has_key key content = list_ex (\<lambda>line. startswith line key) content"

text \<open>The lookup table as the specification words it: Sentinel-1 and its alias s1 in any
  case, ALOS in any case, and the two ALOS-2 names as they are written.\<close>

definition lower_ascii :: "char \<Rightarrow> char" where
  "lower_ascii ch =
     (case map_of (zip ''ABCDEFGHIJKLMNOPQRSTUVWXYZ'' ''abcdefghijklmnopqrstuvwxyz'') ch of
        None \<Rightarrow> ch
      | Some l \<Rightarrow> l)"

definition spec_sensor_table :: "string \<Rightarrow> bool" where
  "spec_sensor_table sensor =
     (map lower_ascii sensor \<in> set [''sentinel-1'', ''s1'', ''alos'']
      \<or> sensor = ''ALOS-2/U'' \<or> sensor = ''ALOS-2/{F,W}'')"


text \<open>The longitude array as the specification words it: \<open>height\<close> evenly spaced values
  from \<open>corner_lon\<close> to \<open>corner_lon + (width - 1) * post_lon\<close>, broadcast across \<open>width\<close>
  rows. It is compared below with the array that \<open>gamma_mesh\<close> builds.\<close>

definition spec_lon_mesh :: "pyfloat \<Rightarrow> pyfloat \<Rightarrow> int \<Rightarrow> int \<Rightarrow> pyfloat list list" where
  "spec_lon_mesh c_lon p_lon width height =
     replicate (nat width)
       (linspace c_lon (fadd c_lon (fmul (of_pyint (width - 1)) p_lon)) (nat height))"

text \<open>The four bytes of a raster file that hold float number \<open>m\<close>.\<close>

definition chunk_at :: "nat \<Rightarrow> byte list \<Rightarrow> byte list" where
  "chunk_at m bytes = take 4 (drop (4 * m) bytes)"

section \<open>A concrete library and file system for the examples\<close>

text \<open>
  The theorems below hold for every library. The examples instantiate it: decimal
  numerals for \<^verbatim>\<open>int\<close> and \<^verbatim>\<open>float\<close> (an optional sign, digits, and for a float an
  optional point and more digits), the IEEE-754 single format, big-endian, for
  \<^verbatim>\<open>unpack\<close> (its two infinities, which \<open>pyfloat\<close> does not have, go to \<open>NaN\<close>), a
  surface that passes through the samples at the grid nodes, and a projection that leaves
  the coordinates as they are.
\<close>

definition digit_of :: "char \<Rightarrow> nat option" where
  "digit_of ch = (let n = (of_char ch :: nat) in if 48 \<le> n \<and> n \<le> 57 then Some (n - 48) else None)"

fun digits_from :: "nat \<Rightarrow> string \<Rightarrow> nat option" where
  "digits_from acc [] = Some acc"
| "digits_from acc (ch # cs) =
     (case digit_of ch of None \<Rightarrow> None | Some d \<Rightarrow> digits_from (10 * acc + d) cs)"

definition unsigned_dec :: "string \<Rightarrow> nat option" where
  "unsigned_dec s = (if s = [] then None else digits_from 0 s)"

definition dec_int :: "string \<Rightarrow> int option" where
  "dec_int s =
     (case strip s of
        [] \<Rightarrow> None
      | ch # cs \<Rightarrow>
          if ch = CHR ''-'' then map_option (\<lambda>n. - int n) (unsigned_dec cs)
          else if ch = CHR ''+'' then map_option int (unsigned_dec cs)
          else map_option int (unsigned_dec (ch # cs)))"

definition unsigned_dec_float :: "string \<Rightarrow> real option" where
  "unsigned_dec_float s =
     (case split_on CHR ''.'' s of
        [ip] \<Rightarrow> map_option real (unsigned_dec ip)
      | [ip, fp] \<Rightarrow>
          (case (unsigned_dec ip, unsigned_dec fp) of
             (Some a, Some b) \<Rightarrow> Some (real a + real b / 10 ^ length fp)
           | _ \<Rightarrow> None)
      | _ \<Rightarrow> None)"

definition dec_float :: "string \<Rightarrow> pyfloat option" where
  "dec_float s =
     (case strip s of
        [] \<Rightarrow> None
      | ch # cs \<Rightarrow>
          if ch = CHR ''-'' then map_option (\<lambda>x. Fin (- x)) (unsigned_dec_float cs)
          else if ch = CHR ''+'' then map_option Fin (unsigned_dec_float cs)
          else map_option Fin (unsigned_dec_float (ch # cs)))"

definition be_float32 :: "byte list \<Rightarrow> pyfloat" where
  "be_float32 chunk =
     (let n = foldl (\<lambda>a b. a * 256 + unat b) 0 chunk;
          e = (n div 2 ^ 23) mod 256;
          m = n mod 2 ^ 23;
          sgn = (if n div 2 ^ 31 = 1 then - 1 else 1 :: real)
      in if e = 255 then NaN
         else if e = 0 then Fin (sgn * real m / 2 ^ 149)
         else if 150 \<le> e then Fin (sgn * real (2 ^ 23 + m) * 2 ^ (e - 150))
         else Fin (sgn * real (2 ^ 23 + m) / 2 ^ (150 - e)))"

definition example_lib :: lib where
  "example_lib =
     \<lparr>py_int = dec_int,
      py_float = dec_float,
      unpack_f = be_float32,
      interp2d = (\<lambda>cols rows z. Inr (\<lambda>c r. z ! nat r ! nat c)),
      ll2xy = (\<lambda>lons lats. Inr (lons, lats))\<rparr>"

text \<open>
  A scene of two range samples and two azimuth lines. The phase raster holds the single
  floats \<open>0\<close>, \<open>\<pi>\<close>, \<open>\<pi>/2\<close> and \<open>-\<pi>/2\<close>, the azimuth raster four times \<open>1\<close>, the incidence
  raster four times \<open>0.5\<close>. The second parameter file is the first without its
  \<^verbatim>\<open>ellipsoid_name\<close> line, the third without its \<^verbatim>\<open>post_lon\<close> line. A further
  raster holds five by five times \<open>1\<close>.
\<close>

definition scene_par :: "string list" where
  "scene_par =
     [''title: scene\<newline>'',
      ''width:        2\<newline>'',
      ''nlines:       2\<newline>'',
      ''corner_lat:   10.0  decimal degrees\<newline>'',
      ''corner_lon:   20.0  decimal degrees\<newline>'',
      ''post_lat:   -0.001  decimal degrees\<newline>'',
      ''post_lon:    0.001  decimal degrees\<newline>'',
      ''ellipsoid_name: WGS 84\<newline>'']"

definition phase_bin :: "byte list" where
  "phase_bin = [0x00, 0x00, 0x00, 0x00, 0x40, 0x49, 0x0F, 0xDB,
                0x3F, 0xC9, 0x0F, 0xDB, 0xBF, 0xC9, 0x0F, 0xDB]"

definition azi_bin :: "byte list" where
  "azi_bin = [0x3F, 0x80, 0x00, 0x00, 0x3F, 0x80, 0x00, 0x00,
              0x3F, 0x80, 0x00, 0x00, 0x3F, 0x80, 0x00, 0x00]"

definition inc_bin :: "byte list" where
  "inc_bin = [0x3F, 0x00, 0x00, 0x00, 0x3F, 0x00, 0x00, 0x00,
              0x3F, 0x00, 0x00, 0x00, 0x3F, 0x00, 0x00, 0x00]"

definition five_bin :: "byte list" where
  "five_bin = concat (replicate 25 [0x3F, 0x80, 0x00, 0x00])"

text \<open>A second scene of three range samples and two azimuth lines: the rasters of the
  first with two more floats each, \<open>1\<close> and \<open>0.5\<close> for the phase.\<close>

definition strip_par :: "string list" where
  "strip_par =
     [''title: strip\<newline>'',
      ''width:        3\<newline>'',
      ''nlines:       2\<newline>'',
      ''corner_lat:   10.0  decimal degrees\<newline>'',
      ''corner_lon:   20.0  decimal degrees\<newline>'',
      ''post_lat:   -0.001  decimal degrees\<newline>'',
      ''post_lon:    0.001  decimal degrees\<newline>'',
      ''ellipsoid_name: WGS 84\<newline>'']"

definition strip_phase_bin :: "byte list" where
  "strip_phase_bin = phase_bin @ [0x3F, 0x80, 0x00, 0x00, 0x3F, 0x00, 0x00, 0x00]"

definition strip_azi_bin :: "byte list" where
  "strip_azi_bin = azi_bin @ [0x3F, 0x80, 0x00, 0x00, 0x3F, 0x80, 0x00, 0x00]"

definition strip_inc_bin :: "byte list" where
  "strip_inc_bin = inc_bin @ [0x3F, 0x00, 0x00, 0x00, 0x3F, 0x00, 0x00, 0x00]"

definition example_fs :: filesystem where
  "example_fs =
     \<lparr>fs_text = [''scene.dem.par'' \<mapsto> scene_par,
                 ''no_ellipsoid.dem.par'' \<mapsto> butlast scene_par,
                 ''no_post_lon.dem.par'' \<mapsto> take 6 scene_par,
                 ''strip.dem.par'' \<mapsto> strip_par],
      fs_bin = [''scene.phase'' \<mapsto> phase_bin,
                ''scene.azi'' \<mapsto> azi_bin,
                ''scene.inc'' \<mapsto> inc_bin,
                ''five.phase'' \<mapsto> five_bin,
                ''strip.phase'' \<mapsto> strip_phase_bin,
                ''strip.azi'' \<mapsto> strip_azi_bin,
                ''strip.inc'' \<mapsto> strip_inc_bin]\<rparr>"

definition five_par :: parameters where
  "five_par =
     \<lparr>range_samples = 5, azimuth_lines = 5, corner_lat = Fin 10, corner_lon = Fin 20,
      post_lat = Fin (- 1 / 1000), post_lon = Fin (1 / 1000), post_arc = Fin (36 / 10),
      post_utm = Fin (40075017 / 360000)\<rparr>"

text \<open>An instance fresh from \<^verbatim>\<open>__init__\<close>.\<close>

definition fresh :: insar where
  "fresh = \<lparr>data = None, data_para = None\<rparr>"

section \<open>Basic facts\<close>

lemma bind_err_Inr: "(bind_err m f = Inr y) = (\<exists>x. m = Inr x \<and> f x = Inr y)"
  by (cases m) auto

lemma bind_err_Inl: "(bind_err m f = Inl e) = (m = Inl e \<or> (\<exists>x. m = Inr x \<and> f x = Inl e))"
  by (cases m) auto

lemma except_IOError_Inr_Some: "(except_IOError r = Inr (Some x)) = (r = Inr (Some x))"
  by (auto simp: except_IOError_def split: sum.splits if_splits)

text \<open>Reading \<open>n\<close> floats succeeds exactly when the file holds \<open>4 * n\<close> bytes, and then
  float \<open>m\<close> is the unpacked chunk at byte offset \<open>4 * m\<close>.\<close>

lemma read_floats_Inr:
  "(read_floats u n bytes = Inr vs) =
     (4 * n \<le> length bytes \<and> vs = map (\<lambda>m. u (take 4 (drop (4 * m) bytes))) [0..<n])"
proof (induction n arbitrary: bytes vs)
  case 0
  then show ?case by auto
next
  case (Suc n)
  have shift: "map (\<lambda>m. u (take 4 (drop (4 * m) bytes))) [0..<Suc n] =
      u (take 4 bytes) # map (\<lambda>m. u (take 4 (drop (4 * m) (drop 4 bytes)))) [0..<n]"
    by (simp add: upt_conv_Cons map_Suc_upt[symmetric] add.commute del: upt_Suc)
  show ?case
    unfolding shift
    by (auto simp: Let_def bind_err_Inr Suc.IH min_def)
qed

lemma read_floats_enough:
  "4 * n \<le> length bytes \<Longrightarrow>
     read_floats u n bytes = Inr (map (\<lambda>m. u (take 4 (drop (4 * m) bytes))) [0..<n])"
  by (simp add: read_floats_Inr)

lemma read_floats_short:
  "length bytes < 4 * n \<Longrightarrow> read_floats u n bytes = Inl StructError"
proof (induction n arbitrary: bytes)
  case 0
  then show ?case by simp
next
  case (Suc n)
  then show ?case by (auto simp: Let_def min_def)
qed

lemma chunk_of_replicate:
  "m < n \<Longrightarrow> take (length c) (drop (length c * m) (concat (replicate n c))) = c"
proof (induction n arbitrary: m)
  case 0
  then show ?case by simp
next
  case (Suc n)
  show ?case
  proof (cases m)
    case 0
    then show ?thesis by simp
  next
    case (Suc k)
    with Suc.prems have "k < n" by simp
    from Suc.IH[OF this] Suc show ?thesis by simp
  qed
qed

lemma chunk4_of_replicate:
  "length c = 4 \<Longrightarrow> m < n \<Longrightarrow> take 4 (drop (4 * m) (concat (replicate n c))) = c"
  using chunk_of_replicate[of m n c] by simp

lemma upt5: "[0..<5] = [0, 1, 2, 3, 4]" and upt3: "[0..<3] = [0, 1, 2]"
  by (simp_all add: upt_rec)

section \<open>The examples, evaluated\<close>

lemmas parse_simps =
  int_field_def float_field_def name_field_def strip_def is_space_def startswith_def split_ws_def
  dec_int_def dec_float_def unsigned_dec_float_def unsigned_dec_def digit_of_def

lemma scan_no_post_lon:
  "para_scan example_lib (take 6 scene_par) unbound =
     Inr \<lparr>v_width = Some 2, v_nlines = Some 2, v_corner_lat = Some (Fin 10),
          v_corner_lon = Some (Fin 20), v_post_lat = Some (Fin (- 1 / 1000)),
          v_post_lon = None, v_ellipsoid_name = None\<rparr>"
  by (simp add: scene_par_def example_lib_def para_line_def unbound_def parse_simps)

lemma no_post_lon_raises:
  "get_image_para example_lib example_fs ''no_post_lon.dem.par'' = Inl (UnboundLocalError ''post_lon'')"
  by (simp add: get_image_para_def example_fs_def scan_no_post_lon local_var_def)

lemma five_floats: "read_floats be_float32 25 five_bin = Inr (replicate 25 (Fin 1))"
proof -
  have len: "length five_bin = 100"
    by (simp add: five_bin_def length_concat sum_list_replicate)
  have one: "be_float32 [0x3F, 0x80, 0x00, 0x00] = Fin 1"
    by (simp add: be_float32_def)
  have "be_float32 (take 4 (drop (4 * m) five_bin)) = Fin 1" if "m < 25" for m
    using chunk4_of_replicate[OF _ that, of "[0x3F, 0x80, 0x00, 0x00 :: byte]"] one
    by (simp add: five_bin_def)
  then have "map (\<lambda>m. be_float32 (take 4 (drop (4 * m) five_bin))) [0..<25] = replicate 25 (Fin 1)"
    by (simp add: list_eq_iff_nth_eq)
  with read_floats_enough[of 25 five_bin be_float32] len show ?thesis by simp
qed

lemma arange_5_2: "arange 5 2 = [0, 2, 4]"
  by (simp add: arange_def upt3)

lemma arange_5_1: "arange 5 1 = [0, 1, 2, 3, 4]"
  by (simp add: arange_def upt5)

lemma five_resampled:
  "get_image_data example_lib example_fs ''five.phase'' five_par 2 =
     Inr (Some (Array2 [[Fin 1, Fin 1, Fin 1], [Fin 1, Fin 1, Fin 1], [Fin 1, Fin 1, Fin 1]],
       \<lparr>range_samples = 2, azimuth_lines = 2, corner_lat = Fin 10, corner_lon = Fin 20,
        post_lat = Fin (- 2 / 1000), post_lon = Fin (2 / 1000), post_arc = Fin (72 / 10),
        post_utm = Fin (40075017 / 180000)\<rparr>))"
proof -
  have f: "fs_bin example_fs ''five.phase'' = Some five_bin"
    by (simp add: example_fs_def)
  show ?thesis
    unfolding get_image_data_def f
    by (simp add: five_par_def five_floats example_lib_def except_IOError_def fill_def
        interp_call_def arange_5_2 arange_5_1 upt5 of_pyint_def)
qed

section \<open>Resampling in get\_image\_data\<close>

text \<open>What a resampling call returns, for any factor other than 1: an array with one row
  for each element of \<^verbatim>\<open>np.arange(0, width, f)\<close>, that is \<open>\<lceil>width / f\<rceil>\<close> rows, each with
  \<open>\<lceil>height / f\<rceil>\<close> values (a single row comes as a one-dimensional array), and a list that
  reports \<open>\<lfloor>width / f\<rfloor>\<close> and \<open>\<lfloor>height / f\<rfloor>\<close> and the spacings times \<open>f\<close>.\<close>

lemma length_arange: "length (arange stop step) = nat (- ((- stop) div step))"
  by (simp add: arange_def)

lemma interp_call_shape:
  assumes "interp_call g new_cols new_rows = Inr a"
  shows "case a of
           Array1 row \<Rightarrow> length new_rows = 1 \<and> length row = length new_cols
         | Array2 z \<Rightarrow> length z = length new_rows \<and> list_all (\<lambda>row. length row = length new_cols) z"
proof -
  define z where "z = map (\<lambda>r. map (\<lambda>c. g c r) new_cols) new_rows"
  have len: "length z = length new_rows" and rows: "list_all (\<lambda>row. length row = length new_cols) z"
    by (simp_all add: z_def list_all_iff)
  from assms have a: "a = (case z of [row] \<Rightarrow> Array1 row | _ \<Rightarrow> Array2 z)"
    unfolding interp_call_def z_def by (auto split: if_splits list.splits)
  show ?thesis
  proof (cases z)
    case Nil
    with a len rows show ?thesis by simp
  next
    case (Cons row rest)
    show ?thesis
    proof (cases rest)
      case Nil
      with Cons a len rows show ?thesis by simp
    next
      case (Cons row' rest')
      with \<open>z = row # rest\<close> a len rows show ?thesis by simp
    qed
  qed
qed

lemma resample_shape:
  assumes "get_image_data L fs image_file parameters resample_factor = Inr (Some (img, parameters'))"
    and "resample_factor \<noteq> 1"
  shows "case img of
           Array1 row \<Rightarrow>
             nat (- ((- range_samples parameters) div resample_factor)) = 1 \<and>
             length row = nat (- ((- azimuth_lines parameters) div resample_factor))
         | Array2 z \<Rightarrow>
             length z = nat (- ((- range_samples parameters) div resample_factor)) \<and>
             list_all (\<lambda>row. length row = nat (- ((- azimuth_lines parameters) div resample_factor))) z"
    and "range_samples parameters' = range_samples parameters div resample_factor"
    and "azimuth_lines parameters' = azimuth_lines parameters div resample_factor"
    and "post_lat parameters' = fmul (post_lat parameters) (of_pyint resample_factor)"
    and "post_lon parameters' = fmul (post_lon parameters) (of_pyint resample_factor)"
proof -
  from assms obtain g where
    c: "interp_call g (arange (azimuth_lines parameters) resample_factor)
          (arange (range_samples parameters) resample_factor) = Inr img"
    and p: "parameters' =
        \<lparr>range_samples = range_samples parameters div resample_factor,
         azimuth_lines = azimuth_lines parameters div resample_factor,
         corner_lat = corner_lat parameters, corner_lon = corner_lon parameters,
         post_lat = fmul (post_lat parameters) (of_pyint resample_factor),
         post_lon = fmul (post_lon parameters) (of_pyint resample_factor),
         post_arc = fmul (post_arc parameters) (of_pyint resample_factor),
         post_utm = fmul (post_utm parameters) (of_pyint resample_factor)\<rparr>"
    unfolding get_image_data_def except_IOError_Inr_Some
    by (auto simp: bind_err_Inr Let_def split: option.splits if_splits)
  from interp_call_shape[OF c] show "case img of
           Array1 row \<Rightarrow>
             nat (- ((- range_samples parameters) div resample_factor)) = 1 \<and>
             length row = nat (- ((- azimuth_lines parameters) div resample_factor))
         | Array2 z \<Rightarrow>
             length z = nat (- ((- range_samples parameters) div resample_factor)) \<and>
             list_all (\<lambda>row. length row = nat (- ((- azimuth_lines parameters) div resample_factor))) z"
    by (simp only: length_arange)
  from p show "range_samples parameters' = range_samples parameters div resample_factor"
    and "azimuth_lines parameters' = azimuth_lines parameters div resample_factor"
    and "post_lat parameters' = fmul (post_lat parameters) (of_pyint resample_factor)"
    and "post_lon parameters' = fmul (post_lon parameters) (of_pyint resample_factor)"
    by simp_all
qed

text \<open>
  C1. For a factor above 1 the resampled grid should have \<open>\<lfloor>width / f\<rfloor>\<close> by
  \<open>\<lfloor>height / f\<rfloor>\<close> entries and agree with the dimensions in the returned list. On a
  raster of five by five samples and the factor 2 the code returns a grid of three rows
  of three values, from the coordinates \<^verbatim>\<open>np.arange(0, 5, 2)\<close>, which are 0, 2 and 4,
  while the returned list reports \<^verbatim>\<open>5 // 2\<close>, which is 2, for both dimensions. The
  spacings are twice the input spacings.
\<close>

theorem resample_grid_three_reported_two:
  "get_image_data example_lib example_fs ''five.phase'' five_par 2 =
     Inr (Some (Array2 [[Fin 1, Fin 1, Fin 1], [Fin 1, Fin 1, Fin 1], [Fin 1, Fin 1, Fin 1]],
       \<lparr>range_samples = 2, azimuth_lines = 2, corner_lat = Fin 10, corner_lon = Fin 20,
        post_lat = Fin (- 2 / 1000), post_lon = Fin (2 / 1000), post_arc = Fin (72 / 10),
        post_utm = Fin (40075017 / 180000)\<rparr>))"
  by (rule five_resampled)

text \<open>
  C10. Whatever the resample factor, a list returned by \<^verbatim>\<open>get_image_data\<close> carries the
  \<^verbatim>\<open>corner_lat\<close> and \<^verbatim>\<open>corner_lon\<close> of the list it was given.
\<close>

theorem get_image_data_keeps_corner:
  assumes "get_image_data L fs image_file parameters resample_factor = Inr (Some (img, parameters'))"
  shows "corner_lat parameters' = corner_lat parameters \<and> corner_lon parameters' = corner_lon parameters"
  using assms
  unfolding get_image_data_def except_IOError_Inr_Some
  by (auto simp: bind_err_Inr Let_def split: option.splits if_splits)

theorem get_image_data_keeps_corner_witness:
  "get_image_data example_lib example_fs ''five.phase'' five_par 2 =
     Inr (Some (Array2 [[Fin 1, Fin 1, Fin 1], [Fin 1, Fin 1, Fin 1], [Fin 1, Fin 1, Fin 1]],
       \<lparr>range_samples = 2, azimuth_lines = 2, corner_lat = Fin 10, corner_lon = Fin 20,
        post_lat = Fin (- 2 / 1000), post_lon = Fin (2 / 1000), post_arc = Fin (72 / 10),
        post_utm = Fin (40075017 / 180000)\<rparr>)) \<and>
   corner_lat \<lparr>range_samples = 2, azimuth_lines = 2, corner_lat = Fin 10, corner_lon = Fin 20,
        post_lat = Fin (- 2 / 1000), post_lon = Fin (2 / 1000), post_arc = Fin (72 / 10),
        post_utm = Fin (40075017 / 180000)\<rparr> = corner_lat five_par \<and>
   corner_lon \<lparr>range_samples = 2, azimuth_lines = 2, corner_lat = Fin 10, corner_lon = Fin 20,
        post_lat = Fin (- 2 / 1000), post_lon = Fin (2 / 1000), post_arc = Fin (72 / 10),
        post_utm = Fin (40075017 / 180000)\<rparr> = corner_lon five_par"
  using five_resampled get_image_data_keeps_corner[OF five_resampled] by blast

section \<open>Files that do not open, files that are too short\<close>

text \<open>A raster with fewer than \<open>4 * width * height\<close> bytes: \<^verbatim>\<open>struct.unpack\<close> raises
  \<^verbatim>\<open>struct.error\<close>, which the \<^verbatim>\<open>except IOError\<close> clause does not catch.\<close>

lemma get_image_data_truncated:
  assumes "fs_bin fs image_file = Some bytes"
    and "0 \<le> range_samples parameters" and "0 \<le> azimuth_lines parameters"
    and "length bytes < 4 * (nat (azimuth_lines parameters) * nat (range_samples parameters))"
  shows "get_image_data L fs image_file parameters resample_factor = Inl StructError"
  using assms by (simp add: get_image_data_def except_IOError_def read_floats_short)

text \<open>
  C4, as the code has it. When the raster file does not open, \<^verbatim>\<open>get_image_data\<close> raises
  nothing: its \<^verbatim>\<open>except IOError\<close> clause prints a message and the call returns
  \<^verbatim>\<open>None\<close>.
\<close>

theorem get_image_data_cannot_open:
  "fs_bin fs image_file = None \<Longrightarrow> get_image_data L fs image_file parameters resample_factor = Inr None"
  by (simp add: get_image_data_def except_IOError_def)

theorem get_image_data_cannot_open_witness:
  "fs_bin example_fs ''absent.phase'' = None \<and>
   get_image_data example_lib example_fs ''absent.phase'' five_par 2 = Inr None"
proof -
  have h: "fs_bin example_fs ''absent.phase'' = None"
    by (simp add: example_fs_def)
  from h get_image_data_cannot_open[OF h] show ?thesis by blast
qed

text \<open>C4 as stated asks for an \<^verbatim>\<open>IOError\<close> that reaches the caller. For a path that
  does not open, the call returns \<^verbatim>\<open>None\<close> instead.\<close>

theorem decode_missing_file_returns_None:
  "get_image_data example_lib example_fs ''missing.phase'' five_par 1 = Inr None"
  by (simp add: get_image_data_def except_IOError_def example_fs_def)

section \<open>The parameter file\<close>

lemma para_line_keeps:
  assumes "para_line L line v = Inr v'"
  shows "\<not> startswith line ''width:'' \<Longrightarrow> v_width v' = v_width v"
    and "\<not> startswith line ''nlines:'' \<Longrightarrow> v_nlines v' = v_nlines v"
    and "\<not> startswith line ''corner_lat:'' \<Longrightarrow> v_corner_lat v' = v_corner_lat v"
    and "\<not> startswith line ''corner_lon:'' \<Longrightarrow> v_corner_lon v' = v_corner_lon v"
    and "\<not> startswith line ''post_lat:'' \<Longrightarrow> v_post_lat v' = v_post_lat v"
    and "\<not> startswith line ''post_lon:'' \<Longrightarrow> v_post_lon v' = v_post_lon v"
  using assms unfolding para_line_def
  by (auto simp: bind_err_Inr split: if_splits)

text \<open>A variable whose key starts no line of the file is after the scan what it was
  before.\<close>

lemma para_scan_keeps:
  "para_scan L content v = Inr v' \<Longrightarrow>
     (\<not> has_key ''width:'' content \<longrightarrow> v_width v' = v_width v) \<and>
     (\<not> has_key ''nlines:'' content \<longrightarrow> v_nlines v' = v_nlines v) \<and>
     (\<not> has_key ''corner_lat:'' content \<longrightarrow> v_corner_lat v' = v_corner_lat v) \<and>
     (\<not> has_key ''corner_lon:'' content \<longrightarrow> v_corner_lon v' = v_corner_lon v) \<and>
     (\<not> has_key ''post_lat:'' content \<longrightarrow> v_post_lat v' = v_post_lat v) \<and>
     (\<not> has_key ''post_lon:'' content \<longrightarrow> v_post_lon v' = v_post_lon v)"
proof (induction content arbitrary: v)
  case Nil
  then show ?case by simp
next
  case (Cons line rest)
  from Cons.prems obtain u where u: "para_line L line v = Inr u" "para_scan L rest u = Inr v'"
    by (auto simp: bind_err_Inr)
  from Cons.IH[OF u(2)] para_line_keeps[OF u(1)] show ?case
    by (simp add: has_key_def)
qed

lemma get_image_para_unbound:
  assumes "fs_text fs par_file = Some content" and "para_scan L content unbound = Inr v"
    and "v_width v = None \<or> v_nlines v = None \<or> v_corner_lat v = None \<or> v_corner_lon v = None
       \<or> v_post_lat v = None \<or> v_post_lon v = None"
  shows "\<exists>name. get_image_para L fs par_file = Inl (UnboundLocalError name)"
  using assms unfolding get_image_para_def local_var_def
  by (auto simp: Let_def split: option.splits)

text \<open>
  C8, as the code has it. When the parameter file does not open, \<^verbatim>\<open>get_image_para\<close>
  raises nothing: it prints a message and returns \<^verbatim>\<open>None\<close>. When the file opens, the
  scan runs through and one of the six required keys starts no line, the call fails at
  the end of the scan with the \<^verbatim>\<open>UnboundLocalError\<close> of a variable that was never
  assigned, and this error reaches the caller.
\<close>

theorem get_image_para_failures:
  "(fs_text fs par_file = None \<longrightarrow> get_image_para L fs par_file = Inr None) \<and>
   (\<forall>content v key. fs_text fs par_file = Some content \<longrightarrow> para_scan L content unbound = Inr v \<longrightarrow>
      key \<in> set required_keys \<longrightarrow> \<not> has_key key content \<longrightarrow>
      (\<exists>name. get_image_para L fs par_file = Inl (UnboundLocalError name)))"
proof (intro conjI allI impI)
  assume "fs_text fs par_file = None"
  then show "get_image_para L fs par_file = Inr None"
    by (simp add: get_image_para_def)
next
  fix content v key
  assume f: "fs_text fs par_file = Some content" and s: "para_scan L content unbound = Inr v"
    and k: "key \<in> set required_keys" and n: "\<not> has_key key content"
  from k n para_scan_keeps[OF s]
  have "v_width v = None \<or> v_nlines v = None \<or> v_corner_lat v = None \<or> v_corner_lon v = None
       \<or> v_post_lat v = None \<or> v_post_lon v = None"
    by (auto simp: required_keys_def unbound_def)
  from get_image_para_unbound[OF f s this]
  show "\<exists>name. get_image_para L fs par_file = Inl (UnboundLocalError name)" .
qed

theorem get_image_para_failures_witness:
  "fs_text example_fs ''absent.dem.par'' = None \<and>
   get_image_para example_lib example_fs ''absent.dem.par'' = Inr None \<and>
   fs_text example_fs ''no_post_lon.dem.par'' = Some (take 6 scene_par) \<and>
   para_scan example_lib (take 6 scene_par) unbound =
     Inr \<lparr>v_width = Some 2, v_nlines = Some 2, v_corner_lat = Some (Fin 10),
          v_corner_lon = Some (Fin 20), v_post_lat = Some (Fin (- 1 / 1000)),
          v_post_lon = None, v_ellipsoid_name = None\<rparr> \<and>
   ''post_lon:'' \<in> set required_keys \<and>
   \<not> has_key ''post_lon:'' (take 6 scene_par) \<and>
   (\<exists>name. get_image_para example_lib example_fs ''no_post_lon.dem.par'' = Inl (UnboundLocalError name))"
proof -
  have a: "fs_text example_fs ''absent.dem.par'' = None"
    by (simp add: example_fs_def)
  have b: "fs_text example_fs ''no_post_lon.dem.par'' = Some (take 6 scene_par)"
    by (simp add: example_fs_def)
  have c: "''post_lon:'' \<in> set required_keys"
    by (simp add: required_keys_def)
  have d: "\<not> has_key ''post_lon:'' (take 6 scene_par)"
    by (simp add: has_key_def scene_par_def startswith_def)
  note t1 = get_image_para_failures[of example_fs "''absent.dem.par''" example_lib,
      THEN conjunct1, rule_format, OF a]
  note t2 = get_image_para_failures[of example_fs "''no_post_lon.dem.par''" example_lib,
      THEN conjunct2, rule_format, OF b scan_no_post_lon c d]
  from a t1 b scan_no_post_lon c d t2 show ?thesis by blast
qed

text \<open>C8 as stated asks for an error that reaches the caller when the file does not open.
  For such a path the call returns \<^verbatim>\<open>None\<close>.\<close>

theorem parse_missing_file_returns_None:
  "get_image_para example_lib example_fs ''missing.dem.par'' = Inr None"
  by (simp add: get_image_para_def example_fs_def)

section \<open>Phase to line of sight\<close>

lemma code_table_in_spec_table:
  "spec_sensor_table ''sentinel-1''" "spec_sensor_table ''Sentinel-1''"
  "spec_sensor_table ''s1''" "spec_sensor_table ''S1''"
  "spec_sensor_table ''ALOS''" "spec_sensor_table ''alos''"
  "spec_sensor_table ''ALOS-2/U''" "spec_sensor_table ''ALOS-2/{F,W}''"
  by (simp_all add: spec_sensor_table_def lower_ascii_def)



lemma radar_freq_values:
  "radar_freq ''sentinel-1'' = Inr (540500045433 / 100)"
  "radar_freq ''Sentinel-1'' = Inr (540500045433 / 100)"
  "radar_freq ''s1'' = Inr (540500045433 / 100)"
  "radar_freq ''S1'' = Inr (540500045433 / 100)"
  "radar_freq ''ALOS'' = Inr 1270000000"
  "radar_freq ''alos'' = Inr 1270000000"
  "radar_freq ''ALOS-2/U'' = Inr 1257500000"
  "radar_freq ''ALOS-2/{F,W}'' = Inr 1236500000"
  by (simp_all add: radar_freq_def)







text \<open>
  C7. For a sensor string outside the lookup table of the specification, whatever the
  phases, \<^verbatim>\<open>__phase2los\<close> raises its \<^verbatim>\<open>ValueError\<close> (\<open>The radar frequency of this
  satellite is not yet specified!\<close>), the error of the code for an unsupported sensor,
  and returns no value.
\<close>

theorem phase2los_unknown_sensor:
  assumes "\<not> spec_sensor_table satellite"
  shows "phase2los phase satellite = Inl ValueError"
proof -
  have "satellite \<notin> set [''sentinel-1'', ''Sentinel-1'', ''s1'', ''S1'']"
    and "satellite \<notin> set [''ALOS'', ''alos'']"
    and "satellite \<noteq> ''ALOS-2/U''" and "satellite \<noteq> ''ALOS-2/{F,W}''"
    using assms code_table_in_spec_table by auto
  then show ?thesis
    by (simp only: phase2los_def radar_freq_def if_False bind_err.simps)
qed

theorem phase2los_unknown_sensor_witness:
  "\<not> spec_sensor_table ''TerraSAR-X'' \<and> phase2los [Fin 1, NaN] ''TerraSAR-X'' = Inl ValueError"
proof -
  have h: "\<not> spec_sensor_table ''TerraSAR-X''"
    by (simp add: spec_sensor_table_def lower_ascii_def)
  from h phase2los_unknown_sensor[OF h] show ?thesis by blast
qed

section \<open>Arrays, columns and strides\<close>

lemma cell_index_less:
  assumes "i < h" and "j < w"
  shows "i * w + j < h * (w::nat)"
proof -
  have "i * w + j < Suc i * w" using assms(2) by simp
  also have "\<dots> \<le> h * w" using assms(1) by (intro mult_le_mono1) simp
  finally show ?thesis .
qed

lemma concat_rows:
  "concat (map (\<lambda>i. map (\<lambda>j. g (i * w + j)) [0..<w]) [0..<h]) = map g [0..<h * w]"
proof (induction h)
  case 0
  then show ?case by simp
next
  case (Suc h)
  have "map g [0..<Suc h * w] = map g [0..<h * w] @ map g [h * w..<h * w + w]"
    using upt_add_eq_append[of 0 "h * w" w] by (simp add: add.commute)
  also have "[h * w..<h * w + w] = map (\<lambda>j. j + h * w) [0..<w]"
    by (simp add: map_add_upt add.commute)
  finally show ?case
    using Suc.IH by (simp add: comp_def add.commute)
qed

lemma masked_fill:
  "where_zero_nan (fill w h P) (fill w h A) =
     fill w h (map (\<lambda>m. if is_zero (P ! m) then NaN else A ! m) [0..<h * w])"
  unfolding where_zero_nan_def fill_def map2_map_map
  by (auto intro!: map_cong simp: cell_index_less)

lemma transpose_flat_fill:
  "transpose_flat w h (fill w h xs) = map (\<lambda>m. xs ! m) [0..<h * w]"
proof -
  have "map (\<lambda>i. map (\<lambda>j. fill w h xs ! j ! i) [0..<w]) [0..<h] =
        map (\<lambda>i. map (\<lambda>j. xs ! (i * w + j)) [0..<w]) [0..<h]"
    by (auto intro!: map_cong simp: fill_def)
  then have "transpose_flat w h (fill w h xs) =
        concat (map (\<lambda>i. map (\<lambda>j. xs ! (i * w + j)) [0..<w]) [0..<h])"
    unfolding transpose_flat_def by (rule arg_cong)
  then show ?thesis
    by (simp only: concat_rows)
qed

lemma masked_column:
  "transpose_flat w h (where_zero_nan (fill w h P) (fill w h A)) =
     map (\<lambda>m. if is_zero (P ! m) then NaN else A ! m) [0..<h * w]"
  unfolding masked_fill transpose_flat_fill
  by (simp add: list_eq_iff_nth_eq)

lemma stride_pos:
  assumes "0 < step"
  shows "length (stride step xs) = (length xs + nat step - 1) div nat step"
    and "k < (length xs + nat step - 1) div nat step \<Longrightarrow>
         stride step xs ! k = xs ! (k * nat step) \<and> k * nat step < length xs"
proof -
  show "length (stride step xs) = (length xs + nat step - 1) div nat step"
    using assms by (simp add: stride_def)
  assume k: "k < (length xs + nat step - 1) div nat step"
  from assms have d: "0 < nat step" by simp
  from k have "Suc k \<le> (length xs + nat step - 1) div nat step" by simp
  with d have "Suc k * nat step \<le> length xs + nat step - 1"
    by (simp only: less_eq_div_iff_mult_less_eq)
  with d have "k * nat step < length xs" by simp
  moreover from k assms have "stride step xs ! k = xs ! (k * nat step)"
    by (simp add: stride_def)
  ultimately show "stride step xs ! k = xs ! (k * nat step) \<and> k * nat step < length xs" by simp
qed

lemma read_pixels_Inr:
  "read_pixels u n f1 f2 f3 = Inr ps \<Longrightarrow>
     ps = map (\<lambda>m. (u (take 4 (drop (4 * m) f1)), u (take 4 (drop (4 * m) f2)),
                    u (take 4 (drop (4 * m) f3)))) [0..<n]"
proof (induction n arbitrary: f1 f2 f3 ps)
  case 0
  then show ?case by simp
next
  case (Suc n)
  let ?g = "\<lambda>a b c m. (u (take 4 (drop (4 * m) a)), u (take 4 (drop (4 * m) b)), u (take 4 (drop (4 * m) c)))"
  have shift: "map (?g f1 f2 f3) [0..<Suc n] =
      ?g f1 f2 f3 0 # map (?g (drop 4 f1) (drop 4 f2) (drop 4 f3)) [0..<n]"
    by (simp add: upt_conv_Cons map_Suc_upt[symmetric] add.commute del: upt_Suc)
  from Suc.prems obtain rest where
    r: "read_pixels u n (drop 4 f1) (drop 4 f2) (drop 4 f3) = Inr rest"
    and p: "ps = (u (take 4 f1), u (take 4 f2), u (take 4 f3)) # rest"
    by (auto simp: bind_err_Inr split: if_splits)
  from Suc.IH[OF r] p show ?case
    unfolding shift by simp
qed

lemma read_pixels_enough:
  "4 * n \<le> length f1 \<Longrightarrow> 4 * n \<le> length f2 \<Longrightarrow> 4 * n \<le> length f3 \<Longrightarrow>
     \<exists>ps. read_pixels u n f1 f2 f3 = Inr ps"
proof (induction n arbitrary: f1 f2 f3)
  case 0
  then show ?case by simp
next
  case (Suc n)
  from Suc.prems have "4 * n \<le> length (drop 4 f1)" "4 * n \<le> length (drop 4 f2)"
    "4 * n \<le> length (drop 4 f3)" by simp_all
  from Suc.IH[OF this] obtain ps where "read_pixels u n (drop 4 f1) (drop 4 f2) (drop 4 f3) = Inr ps"
    by blast
  with Suc.prems show ?case by (simp add: min_def)
qed


lemma local_var_Inr: "(local_var name x = Inr y) = (x = Some y)"
  by (simp add: local_var_def split: option.splits)

lemma gamma_dataset_InrE:
  assumes "gamma_dataset L fs v phase_file azi_file inc_file satellite downsample = Inr d"
  obtains f1 f2 f3 W H pixels clat plat clon plon where
    "fs_bin fs phase_file = Some f1" "fs_bin fs azi_file = Some f2" "fs_bin fs inc_file = Some f3"
    "v_width v = Some W" "v_nlines v = Some H" "0 \<le> W" "0 \<le> H"
    "read_pixels (unpack_f L) (nat H * nat W) f1 f2 f3 = Inr pixels"
    "downsample \<noteq> 0"
    "v_corner_lat v = Some clat" "v_post_lat v = Some plat"
    "v_corner_lon v = Some clon" "v_post_lon v = Some plon"
    "d ''phase'' = Some \<lparr>ch_value = stride downsample (transpose_flat (nat W) (nat H)
        (where_zero_nan (fill (nat W) (nat H) (map fst pixels)) (fill (nat W) (nat H) (map fst pixels)))),
        ch_unit = ''radian''\<rparr>"
    "d ''azi'' = Some \<lparr>ch_value = map (\<lambda>a. fsub (Fin (- 180)) (degrees a))
        (stride downsample (transpose_flat (nat W) (nat H)
          (where_zero_nan (fill (nat W) (nat H) (map fst pixels))
             (fill (nat W) (nat H) (map (fst \<circ> snd) pixels))))),
        ch_unit = ''degree''\<rparr>"
    "d ''inc'' = Some \<lparr>ch_value = map (\<lambda>a. fsub (Fin 90) (degrees a))
        (stride downsample (transpose_flat (nat W) (nat H)
          (where_zero_nan (fill (nat W) (nat H) (map fst pixels))
             (fill (nat W) (nat H) (map (snd \<circ> snd) pixels))))),
        ch_unit = ''degree''\<rparr>"
    "d ''lon'' = Some \<lparr>ch_value = stride downsample (concat (fst (gamma_mesh clat plat clon plon W H))),
        ch_unit = ''degree''\<rparr>"
    "d ''lat'' = Some \<lparr>ch_value = stride downsample (concat (snd (gamma_mesh clat plat clon plon W H))),
        ch_unit = ''degree''\<rparr>"
proof -
  from assms obtain f1 f2 f3 where f: "fs_bin fs phase_file = Some f1" "fs_bin fs azi_file = Some f2"
    "fs_bin fs inc_file = Some f3"
    unfolding gamma_dataset_def by (auto split: option.splits)
  from assms show ?thesis
    unfolding gamma_dataset_def f option.case
    by (auto simp: bind_err_Inr local_var_Inr Let_def split: if_splits prod.splits intro!: that[OF f])
qed

lemma read_from_gamma_CompletedE:
  assumes "read_from_gamma L fs self para_file phase_file azi_file inc_file satellite downsample =
      (Completed, self')"
  obtains v d ellps_name where
    "gamma_para L fs para_file = Inr v"
    "gamma_dataset L fs v phase_file azi_file inc_file satellite downsample = Inr d"
    "v_ellipsoid_name v = Some ellps_name"
    "self' = self\<lparr>data := Some d,
       data_para := Some [''satellite'' \<mapsto> satellite, ''datum_name'' \<mapsto> ellps_name]\<rparr>"
  using assms unfolding read_from_gamma_def
  by (auto simp: Let_def local_var_def split: sum.splits if_splits option.splits)


lemma pixels_nth:
  assumes "read_pixels u n f1 f2 f3 = Inr ps" and "m < n"
  shows "map fst ps ! m = u (chunk_at m f1)"
    and "map (fst \<circ> snd) ps ! m = u (chunk_at m f2)"
    and "map (snd \<circ> snd) ps ! m = u (chunk_at m f3)"
  using read_pixels_Inr[OF assms(1)] assms(2) by (simp_all add: chunk_at_def)

lemma masked_stride:
  assumes "0 < step" and "k < (h * w + nat step - 1) div nat step"
  shows "stride step (transpose_flat w h (where_zero_nan (fill w h P) (fill w h A))) ! k =
           (if is_zero (P ! (k * nat step)) then NaN else A ! (k * nat step))"
    and "k * nat step < h * w"
proof -
  let ?col = "map (\<lambda>m. if is_zero (P ! m) then NaN else A ! m) [0..<h * w]"
  have len: "length ?col = h * w"
    by (simp only: length_map length_upt diff_zero)
  from assms(2) have k: "k < (length ?col + nat step - 1) div nat step"
    by (simp only: len)
  note col = stride_pos(2)[OF assms(1) k]
  from col show b: "k * nat step < h * w"
    by (simp only: len)
  then have c: "k * nat step < length [0..<h * w]" "0 + k * nat step < h * w"
    by (simp_all only: length_upt diff_zero add_0)
  have "?col ! (k * nat step) = (if is_zero (P ! (k * nat step)) then NaN else A ! (k * nat step))"
    by (simp only: nth_map[OF c(1)] nth_upt[OF c(2)] add_0)
  with col show "stride step (transpose_flat w h (where_zero_nan (fill w h P) (fill w h A))) ! k =
           (if is_zero (P ! (k * nat step)) then NaN else A ! (k * nat step))"
    by (simp only: masked_column)
qed

lemma masked_stride_length:
  assumes "0 < step"
  shows "length (stride step (transpose_flat w h (where_zero_nan (fill w h P) (fill w h A)))) =
           (h * w + nat step - 1) div nat step"
  unfolding masked_column by (simp add: stride_pos(1)[OF assms])

lemma gamma_dataset_succeeds:
  assumes "fs_bin fs phase_file = Some f1" "fs_bin fs azi_file = Some f2" "fs_bin fs inc_file = Some f3"
    and "v_width v = Some W" "v_nlines v = Some H" "0 \<le> W" "0 \<le> H"
    and "4 * (nat H * nat W) \<le> length f1" "4 * (nat H * nat W) \<le> length f2"
      "4 * (nat H * nat W) \<le> length f3"
    and "downsample \<noteq> 0"
    and "radar_freq satellite = Inr freq"
    and "v_corner_lat v = Some clat" "v_post_lat v = Some plat"
      "v_corner_lon v = Some clon" "v_post_lon v = Some plon"
    and "\<And>lons lats. \<exists>r. ll2xy L lons lats = Inr r"
  shows "\<exists>d. gamma_dataset L fs v phase_file azi_file inc_file satellite downsample = Inr d"
proof -
  from read_pixels_enough[OF assms(8-10)] obtain ps where
    ps: "read_pixels (unpack_f L) (nat H * nat W) f1 f2 f3 = Inr ps" by blast
  let ?mesh = "gamma_mesh clat plat clon plon W H"
  from assms(17) obtain x y where
    xy: "ll2xy L (stride downsample (concat (fst ?mesh))) (stride downsample (concat (snd ?mesh))) = Inr (x, y)"
    by (metis surj_pair)
  show ?thesis
    unfolding gamma_dataset_def
    using assms(6,7,11)
    by (simp add: assms(1-5) assms(12-16) ps xy local_var_def phase2los_def Let_def)
qed


section \<open>The example scene, evaluated\<close>

lemma gamma_scan_scene:
  "gamma_scan example_lib scene_par unbound =
     Inr \<lparr>v_width = Some 2, v_nlines = Some 2, v_corner_lat = Some (Fin 10),
          v_corner_lon = Some (Fin 20), v_post_lat = Some (Fin (- 1 / 1000)),
          v_post_lon = Some (Fin (1 / 1000)), v_ellipsoid_name = Some ''WGS 84''\<rparr>"
  by (simp add: scene_par_def example_lib_def gamma_line_def unbound_def parse_simps)

lemma gamma_scan_no_ellipsoid:
  "gamma_scan example_lib (butlast scene_par) unbound =
     Inr \<lparr>v_width = Some 2, v_nlines = Some 2, v_corner_lat = Some (Fin 10),
          v_corner_lon = Some (Fin 20), v_post_lat = Some (Fin (- 1 / 1000)),
          v_post_lon = Some (Fin (1 / 1000)), v_ellipsoid_name = None\<rparr>"
  by (simp add: scene_par_def example_lib_def gamma_line_def unbound_def parse_simps)

lemma gamma_para_scene:
  "gamma_para example_lib example_fs ''scene.dem.par'' =
     Inr \<lparr>v_width = Some 2, v_nlines = Some 2, v_corner_lat = Some (Fin 10),
          v_corner_lon = Some (Fin 20), v_post_lat = Some (Fin (- 1 / 1000)),
          v_post_lon = Some (Fin (1 / 1000)), v_ellipsoid_name = Some ''WGS 84''\<rparr>"
  by (simp add: gamma_para_def example_fs_def gamma_scan_scene local_var_def)

lemma gamma_para_no_ellipsoid:
  "gamma_para example_lib example_fs ''no_ellipsoid.dem.par'' =
     Inr \<lparr>v_width = Some 2, v_nlines = Some 2, v_corner_lat = Some (Fin 10),
          v_corner_lon = Some (Fin 20), v_post_lat = Some (Fin (- 1 / 1000)),
          v_post_lon = Some (Fin (1 / 1000)), v_ellipsoid_name = None\<rparr>"
  by (simp add: gamma_para_def example_fs_def gamma_scan_no_ellipsoid local_var_def)

lemma scene_files:
  "fs_bin example_fs ''scene.phase'' = Some phase_bin"
  "fs_bin example_fs ''scene.azi'' = Some azi_bin"
  "fs_bin example_fs ''scene.inc'' = Some inc_bin"
  by (simp_all add: example_fs_def)

lemma scene_dataset:
  assumes "v_width v = Some 2" "v_nlines v = Some 2"
    "v_corner_lat v = Some (Fin 10)" "v_post_lat v = Some (Fin (- 1 / 1000))"
    "v_corner_lon v = Some (Fin 20)" "v_post_lon v = Some (Fin (1 / 1000))"
  shows "\<exists>d. gamma_dataset example_lib example_fs v ''scene.phase'' ''scene.azi'' ''scene.inc''
           ''Sentinel-1'' 1 = Inr d"
proof (rule gamma_dataset_succeeds[OF scene_files assms(1,2) _ _ _ _ _ _ _ assms(3-6)])
  show "radar_freq ''Sentinel-1'' = Inr (540500045433 / 100)"
    by (simp add: radar_freq_def)
qed (simp_all add: phase_bin_def azi_bin_def inc_bin_def example_lib_def)

lemma scene_completes:
  "\<exists>d. read_from_gamma example_lib example_fs fresh ''scene.dem.par'' ''scene.phase'' ''scene.azi''
          ''scene.inc'' ''Sentinel-1'' 1 =
        (Completed, \<lparr>data = Some d,
           data_para = Some [''satellite'' \<mapsto> ''Sentinel-1'', ''datum_name'' \<mapsto> ''WGS 84'']\<rparr>)"
proof -
  let ?v = "\<lparr>v_width = Some 2, v_nlines = Some 2, v_corner_lat = Some (Fin 10),
          v_corner_lon = Some (Fin 20), v_post_lat = Some (Fin (- 1 / 1000)),
          v_post_lon = Some (Fin (1 / 1000)), v_ellipsoid_name = Some ''WGS 84''\<rparr>"
  obtain d where "gamma_dataset example_lib example_fs ?v ''scene.phase'' ''scene.azi'' ''scene.inc''
           ''Sentinel-1'' 1 = Inr d"
    using scene_dataset[of ?v] by auto
  then show ?thesis
    by (simp add: read_from_gamma_def gamma_para_scene fresh_def local_var_def)
qed

lemma no_ellipsoid_raises:
  "\<exists>d. read_from_gamma example_lib example_fs fresh ''no_ellipsoid.dem.par'' ''scene.phase''
          ''scene.azi'' ''scene.inc'' ''Sentinel-1'' 1 =
        (Raised (UnboundLocalError ''ellps_name''), \<lparr>data = Some d, data_para = None\<rparr>)"
proof -
  let ?v = "\<lparr>v_width = Some 2, v_nlines = Some 2, v_corner_lat = Some (Fin 10),
          v_corner_lon = Some (Fin 20), v_post_lat = Some (Fin (- 1 / 1000)),
          v_post_lon = Some (Fin (1 / 1000)), v_ellipsoid_name = None\<rparr>"
  obtain d where "gamma_dataset example_lib example_fs ?v ''scene.phase'' ''scene.azi'' ''scene.inc''
           ''Sentinel-1'' 1 = Inr d"
    using scene_dataset[of ?v] by auto
  then show ?thesis
    by (simp add: read_from_gamma_def gamma_para_no_ellipsoid fresh_def local_var_def)
qed

lemma scene_chunks:
  "be_float32 (chunk_at 0 phase_bin) = Fin 0"
  "be_float32 (chunk_at 1 phase_bin) = Fin (13176795 / 4194304)"
  "be_float32 (chunk_at 1 azi_bin) = Fin 1"
  "be_float32 (chunk_at 1 inc_bin) = Fin (1 / 2)"
  by (simp_all add: chunk_at_def phase_bin_def azi_bin_def inc_bin_def be_float32_def)



section \<open>Co-masking\<close>

text \<open>
  C5. After a call of \<^verbatim>\<open>read_from_gamma\<close> that ran to its end with a positive
  \<^verbatim>\<open>downsample\<close>, index \<open>k\<close> of the phase, azi and inc channels belongs to float number
  \<open>k * downsample\<close> of the three rasters. Where that float of the phase raster is exactly
  zero the three channels hold not-a-number at \<open>k\<close>; where it is not, the phase channel
  holds the phase as read and the other two hold the converted azimuth and incidence as
  read. The channels have one entry for every \<open>downsample\<close>-th pixel of the scene.
\<close>

theorem co_masking:
  assumes run: "read_from_gamma L fs self para_file phase_file azi_file inc_file satellite downsample =
      (Completed, self')"
    and step: "0 < downsample"
    and files: "fs_bin fs phase_file = Some f1" "fs_bin fs azi_file = Some f2"
      "fs_bin fs inc_file = Some f3"
  shows "\<exists>d phase azi inc v W H.
      data self' = Some d \<and> d ''phase'' = Some phase \<and> d ''azi'' = Some azi \<and> d ''inc'' = Some inc \<and>
      gamma_para L fs para_file = Inr v \<and> v_width v = Some W \<and> v_nlines v = Some H \<and>
      length (ch_value phase) = (nat H * nat W + nat downsample - 1) div nat downsample \<and>
      length (ch_value azi) = length (ch_value phase) \<and>
      length (ch_value inc) = length (ch_value phase) \<and>
      (\<forall>k<length (ch_value phase).
         (is_zero (unpack_f L (chunk_at (k * nat downsample) f1)) \<longrightarrow>
            ch_value phase ! k = NaN \<and> ch_value azi ! k = NaN \<and> ch_value inc ! k = NaN) \<and>
         (\<not> is_zero (unpack_f L (chunk_at (k * nat downsample) f1)) \<longrightarrow>
            ch_value phase ! k = unpack_f L (chunk_at (k * nat downsample) f1) \<and>
            ch_value azi ! k =
              fsub (Fin (- 180)) (degrees (unpack_f L (chunk_at (k * nat downsample) f2))) \<and>
            ch_value inc ! k =
              fsub (Fin 90) (degrees (unpack_f L (chunk_at (k * nat downsample) f3)))))"
proof -
  from run obtain v d ellps_name where
    v: "gamma_para L fs para_file = Inr v"
    and d: "gamma_dataset L fs v phase_file azi_file inc_file satellite downsample = Inr d"
    and s: "self' = self\<lparr>data := Some d,
       data_para := Some [''satellite'' \<mapsto> satellite, ''datum_name'' \<mapsto> ellps_name]\<rparr>"
    by (rule read_from_gamma_CompletedE)
  from d obtain g1 g2 g3 W H pixels where
    g: "fs_bin fs phase_file = Some g1" "fs_bin fs azi_file = Some g2" "fs_bin fs inc_file = Some g3"
    and wh: "v_width v = Some W" "v_nlines v = Some H"
    and px: "read_pixels (unpack_f L) (nat H * nat W) g1 g2 g3 = Inr pixels"
    and ph: "d ''phase'' = Some \<lparr>ch_value = stride downsample (transpose_flat (nat W) (nat H)
        (where_zero_nan (fill (nat W) (nat H) (map fst pixels)) (fill (nat W) (nat H) (map fst pixels)))),
        ch_unit = ''radian''\<rparr>"
    and az: "d ''azi'' = Some \<lparr>ch_value = map (\<lambda>a. fsub (Fin (- 180)) (degrees a))
        (stride downsample (transpose_flat (nat W) (nat H)
          (where_zero_nan (fill (nat W) (nat H) (map fst pixels))
             (fill (nat W) (nat H) (map (fst \<circ> snd) pixels))))),
        ch_unit = ''degree''\<rparr>"
    and inc: "d ''inc'' = Some \<lparr>ch_value = map (\<lambda>a. fsub (Fin 90) (degrees a))
        (stride downsample (transpose_flat (nat W) (nat H)
          (where_zero_nan (fill (nat W) (nat H) (map fst pixels))
             (fill (nat W) (nat H) (map (snd \<circ> snd) pixels))))),
        ch_unit = ''degree''\<rparr>"
    by (rule gamma_dataset_InrE)
  from g files have eq: "g1 = f1" "g2 = f2" "g3 = f3" by simp_all
  let ?n = "(nat H * nat W + nat downsample - 1) div nat downsample"
  let ?P = "map fst pixels" and ?A = "map (fst \<circ> snd) pixels" and ?I = "map (snd \<circ> snd) pixels"
  let ?phase = "stride downsample (transpose_flat (nat W) (nat H)
        (where_zero_nan (fill (nat W) (nat H) ?P) (fill (nat W) (nat H) ?P)))"
  let ?azi = "stride downsample (transpose_flat (nat W) (nat H)
        (where_zero_nan (fill (nat W) (nat H) ?P) (fill (nat W) (nat H) ?A)))"
  let ?inc = "stride downsample (transpose_flat (nat W) (nat H)
        (where_zero_nan (fill (nat W) (nat H) ?P) (fill (nat W) (nat H) ?I)))"
  have len: "length ?phase = ?n" "length ?azi = ?n" "length ?inc = ?n"
    by (simp_all only: masked_stride_length[OF step])
  have cell: "(is_zero (unpack_f L (chunk_at (k * nat downsample) f1)) \<longrightarrow>
            ?phase ! k = NaN \<and> fsub (Fin (- 180)) (degrees (?azi ! k)) = NaN \<and>
            fsub (Fin 90) (degrees (?inc ! k)) = NaN) \<and>
         (\<not> is_zero (unpack_f L (chunk_at (k * nat downsample) f1)) \<longrightarrow>
            ?phase ! k = unpack_f L (chunk_at (k * nat downsample) f1) \<and>
            fsub (Fin (- 180)) (degrees (?azi ! k)) =
              fsub (Fin (- 180)) (degrees (unpack_f L (chunk_at (k * nat downsample) f2))) \<and>
            fsub (Fin 90) (degrees (?inc ! k)) =
              fsub (Fin 90) (degrees (unpack_f L (chunk_at (k * nat downsample) f3))))"
    if k: "k < ?n" for k
  proof -
    from masked_stride(2)[OF step k] have m: "k * nat downsample < nat H * nat W" .
    note nth = pixels_nth[OF px m, unfolded eq]
    show ?thesis
      unfolding masked_stride(1)[OF step k] nth
      by (simp add: degrees_def)
  qed
  have cells: "\<forall>k<length ?phase.
         (is_zero (unpack_f L (chunk_at (k * nat downsample) f1)) \<longrightarrow>
            ?phase ! k = NaN \<and> map (\<lambda>a. fsub (Fin (- 180)) (degrees a)) ?azi ! k = NaN \<and>
            map (\<lambda>a. fsub (Fin 90) (degrees a)) ?inc ! k = NaN) \<and>
         (\<not> is_zero (unpack_f L (chunk_at (k * nat downsample) f1)) \<longrightarrow>
            ?phase ! k = unpack_f L (chunk_at (k * nat downsample) f1) \<and>
            map (\<lambda>a. fsub (Fin (- 180)) (degrees a)) ?azi ! k =
              fsub (Fin (- 180)) (degrees (unpack_f L (chunk_at (k * nat downsample) f2))) \<and>
            map (\<lambda>a. fsub (Fin 90) (degrees a)) ?inc ! k =
              fsub (Fin 90) (degrees (unpack_f L (chunk_at (k * nat downsample) f3))))"
  proof (intro allI impI)
    fix k
    assume "k < length ?phase"
    with len have k: "k < ?n" "k < length ?azi" "k < length ?inc" by simp_all
    from cell[OF k(1)] show "(is_zero (unpack_f L (chunk_at (k * nat downsample) f1)) \<longrightarrow>
            ?phase ! k = NaN \<and> map (\<lambda>a. fsub (Fin (- 180)) (degrees a)) ?azi ! k = NaN \<and>
            map (\<lambda>a. fsub (Fin 90) (degrees a)) ?inc ! k = NaN) \<and>
         (\<not> is_zero (unpack_f L (chunk_at (k * nat downsample) f1)) \<longrightarrow>
            ?phase ! k = unpack_f L (chunk_at (k * nat downsample) f1) \<and>
            map (\<lambda>a. fsub (Fin (- 180)) (degrees a)) ?azi ! k =
              fsub (Fin (- 180)) (degrees (unpack_f L (chunk_at (k * nat downsample) f2))) \<and>
            map (\<lambda>a. fsub (Fin 90) (degrees a)) ?inc ! k =
              fsub (Fin 90) (degrees (unpack_f L (chunk_at (k * nat downsample) f3))))"
      by (simp only: nth_map[OF k(2)] nth_map[OF k(3)])
  qed
  let ?pc = "\<lparr>ch_value = ?phase, ch_unit = ''radian''\<rparr>"
  let ?ac = "\<lparr>ch_value = map (\<lambda>a. fsub (Fin (- 180)) (degrees a)) ?azi, ch_unit = ''degree''\<rparr>"
  let ?ic = "\<lparr>ch_value = map (\<lambda>a. fsub (Fin 90) (degrees a)) ?inc, ch_unit = ''degree''\<rparr>"
  have vals: "ch_value ?pc = ?phase" "ch_value ?ac = map (\<lambda>a. fsub (Fin (- 180)) (degrees a)) ?azi"
    "ch_value ?ic = map (\<lambda>a. fsub (Fin 90) (degrees a)) ?inc"
    by simp_all
  have "data self' = Some d \<and> d ''phase'' = Some ?pc \<and> d ''azi'' = Some ?ac \<and> d ''inc'' = Some ?ic \<and>
      gamma_para L fs para_file = Inr v \<and> v_width v = Some W \<and> v_nlines v = Some H \<and>
      length (ch_value ?pc) = ?n \<and>
      length (ch_value ?ac) = length (ch_value ?pc) \<and>
      length (ch_value ?ic) = length (ch_value ?pc) \<and>
      (\<forall>k<length (ch_value ?pc).
         (is_zero (unpack_f L (chunk_at (k * nat downsample) f1)) \<longrightarrow>
            ch_value ?pc ! k = NaN \<and> ch_value ?ac ! k = NaN \<and> ch_value ?ic ! k = NaN) \<and>
         (\<not> is_zero (unpack_f L (chunk_at (k * nat downsample) f1)) \<longrightarrow>
            ch_value ?pc ! k = unpack_f L (chunk_at (k * nat downsample) f1) \<and>
            ch_value ?ac ! k =
              fsub (Fin (- 180)) (degrees (unpack_f L (chunk_at (k * nat downsample) f2))) \<and>
            ch_value ?ic ! k =
              fsub (Fin 90) (degrees (unpack_f L (chunk_at (k * nat downsample) f3)))))"
    unfolding vals
  proof (intro conjI)
    show "data self' = Some d" using s by simp
    show "length ?phase = ?n" by (rule len)
    show "length (map (\<lambda>a. fsub (Fin (- 180)) (degrees a)) ?azi) = length ?phase"
      by (simp only: length_map len)
    show "length (map (\<lambda>a. fsub (Fin 90) (degrees a)) ?inc) = length ?phase"
      by (simp only: length_map len)
  qed (fact ph az inc v wh cells)+
  then show ?thesis
    apply -
    apply (rule exI)+
    apply assumption
    done
qed

theorem co_masking_witness:
  "\<exists>s'. read_from_gamma example_lib example_fs fresh ''scene.dem.par'' ''scene.phase'' ''scene.azi''
          ''scene.inc'' ''Sentinel-1'' 1 = (Completed, s') \<and>
        (0::int) < 1 \<and>
        fs_bin example_fs ''scene.phase'' = Some phase_bin \<and>
        fs_bin example_fs ''scene.azi'' = Some azi_bin \<and>
        fs_bin example_fs ''scene.inc'' = Some inc_bin \<and>
        (\<exists>d phase azi inc.
           data s' = Some d \<and> d ''phase'' = Some phase \<and> d ''azi'' = Some azi \<and> d ''inc'' = Some inc \<and>
           length (ch_value phase) = 4 \<and>
           is_zero (be_float32 (chunk_at 0 phase_bin)) \<and>
           ch_value phase ! 0 = NaN \<and> ch_value azi ! 0 = NaN \<and> ch_value inc ! 0 = NaN \<and>
           \<not> is_zero (be_float32 (chunk_at 1 phase_bin)) \<and>
           ch_value phase ! 1 = Fin (13176795 / 4194304) \<and>
           ch_value azi ! 1 = Fin (- 180 - 180 / pi) \<and>
           ch_value inc ! 1 = Fin (90 - 90 / pi))"
proof -
  from scene_completes obtain d0 where
    run: "read_from_gamma example_lib example_fs fresh ''scene.dem.par'' ''scene.phase'' ''scene.azi''
          ''scene.inc'' ''Sentinel-1'' 1 =
        (Completed, \<lparr>data = Some d0,
           data_para = Some [''satellite'' \<mapsto> ''Sentinel-1'', ''datum_name'' \<mapsto> ''WGS 84'']\<rparr>)"
    by blast
  let ?s = "\<lparr>data = Some d0,
           data_para = Some [''satellite'' \<mapsto> ''Sentinel-1'', ''datum_name'' \<mapsto> ''WGS 84'']\<rparr>"
  have one: "(0::int) < 1" by simp
  from co_masking[OF run one scene_files] obtain d phase azi inc v W H where
    d: "data ?s = Some d" "d ''phase'' = Some phase" "d ''azi'' = Some azi" "d ''inc'' = Some inc"
    and v: "gamma_para example_lib example_fs ''scene.dem.par'' = Inr v"
      "v_width v = Some W" "v_nlines v = Some H"
    and len: "length (ch_value phase) = (nat H * nat W + nat 1 - 1) div nat 1"
    and cells: "\<forall>k<length (ch_value phase).
         (is_zero (unpack_f example_lib (chunk_at (k * nat 1) phase_bin)) \<longrightarrow>
            ch_value phase ! k = NaN \<and> ch_value azi ! k = NaN \<and> ch_value inc ! k = NaN) \<and>
         (\<not> is_zero (unpack_f example_lib (chunk_at (k * nat 1) phase_bin)) \<longrightarrow>
            ch_value phase ! k = unpack_f example_lib (chunk_at (k * nat 1) phase_bin) \<and>
            ch_value azi ! k =
              fsub (Fin (- 180)) (degrees (unpack_f example_lib (chunk_at (k * nat 1) azi_bin))) \<and>
            ch_value inc ! k =
              fsub (Fin 90) (degrees (unpack_f example_lib (chunk_at (k * nat 1) inc_bin))))"
    by blast
  from v gamma_para_scene have "W = 2" "H = 2" by auto
  with len have l4: "length (ch_value phase) = 4" by simp
  have u: "unpack_f example_lib = be_float32" by (simp add: example_lib_def)
  from cells[rule_format, of 0] l4
  have c0: "ch_value phase ! 0 = NaN \<and> ch_value azi ! 0 = NaN \<and> ch_value inc ! 0 = NaN"
    by (simp add: u scene_chunks)
  from cells[rule_format, of 1] l4
  have c1: "ch_value phase ! 1 = Fin (13176795 / 4194304) \<and> ch_value azi ! 1 = Fin (- 180 - 180 / pi) \<and>
      ch_value inc ! 1 = Fin (90 - 90 / pi)"
    by (simp add: u scene_chunks[unfolded One_nat_def] degrees_def)
  have z: "is_zero (be_float32 (chunk_at 0 phase_bin))" "\<not> is_zero (be_float32 (chunk_at 1 phase_bin))"
    by (simp_all add: scene_chunks[unfolded One_nat_def])
  from run one scene_files d l4 c0 c1 z show ?thesis
    by blast
qed

section \<open>A parameter file without ellipsoid\_name\<close>

text \<open>The ways a call can leave the instance: unchanged, when it did not run to its end;
  with a new dataset and the old \<^verbatim>\<open>data_para\<close>, when \<^verbatim>\<open>ellps_name\<close> was unbound;
  with both replaced, when it ran to its end.\<close>

lemma read_from_gamma_outcomes:
  assumes "read_from_gamma L fs self para_file phase_file azi_file inc_file satellite downsample =
      (out, self')"
  shows "(out \<noteq> Completed \<and> self' = self) \<or>
         (\<exists>d. out = Raised (UnboundLocalError ''ellps_name'') \<and> self' = self\<lparr>data := Some d\<rparr>) \<or>
         (\<exists>d ellps_name. out = Completed \<and>
            self' = self\<lparr>data := Some d,
              data_para := Some [''satellite'' \<mapsto> satellite, ''datum_name'' \<mapsto> ellps_name]\<rparr>)"
  using assms unfolding read_from_gamma_def
  by (auto simp: Let_def local_var_def split: sum.splits if_splits option.splits)

text \<open>
  C3. A parameter file with the six required keys and no \<^verbatim>\<open>ellipsoid_name\<close> line
  should be read without failure. The file here has the six keys and lacks that line;
  the rasters are complete and the sensor is supported. The call raises
  \<^verbatim>\<open>UnboundLocalError\<close> for \<^verbatim>\<open>ellps_name\<close>, which only the missing line would have
  assigned.
\<close>

theorem missing_ellipsoid_name_raises:
  "list_all (\<lambda>key. has_key key (butlast scene_par)) required_keys \<and>
   \<not> has_key ''ellipsoid_name:'' (butlast scene_par) \<and>
   fs_text example_fs ''no_ellipsoid.dem.par'' = Some (butlast scene_par) \<and>
   fst (read_from_gamma example_lib example_fs fresh ''no_ellipsoid.dem.par'' ''scene.phase''
          ''scene.azi'' ''scene.inc'' ''Sentinel-1'' 1) = Raised (UnboundLocalError ''ellps_name'')"
proof -
  have "list_all (\<lambda>key. has_key key (butlast scene_par)) required_keys"
    and "\<not> has_key ''ellipsoid_name:'' (butlast scene_par)"
    by (simp_all add: required_keys_def has_key_def scene_par_def startswith_def)
  moreover have "fs_text example_fs ''no_ellipsoid.dem.par'' = Some (butlast scene_par)"
    by (simp add: example_fs_def)
  moreover from no_ellipsoid_raises
  have "fst (read_from_gamma example_lib example_fs fresh ''no_ellipsoid.dem.par'' ''scene.phase''
          ''scene.azi'' ''scene.inc'' ''Sentinel-1'' 1) = Raised (UnboundLocalError ''ellps_name'')"
    by auto
  ultimately show ?thesis by blast
qed

text \<open>
  C2. A call of \<^verbatim>\<open>read_from_gamma\<close> that fails should leave \<^verbatim>\<open>self.data\<close> and
  \<^verbatim>\<open>self.data_para\<close> as they were. On the same input the call raises after the
  assignment of \<^verbatim>\<open>self.data\<close> and before that of \<^verbatim>\<open>self.data_para\<close>: the instance
  fresh from \<^verbatim>\<open>__init__\<close> holds a dataset afterwards, and still no \<^verbatim>\<open>data_para\<close>.
\<close>

theorem failed_ingest_replaces_data:
  "fst (read_from_gamma example_lib example_fs fresh ''no_ellipsoid.dem.par'' ''scene.phase''
          ''scene.azi'' ''scene.inc'' ''Sentinel-1'' 1) = Raised (UnboundLocalError ''ellps_name'') \<and>
   data fresh = None \<and>
   data (snd (read_from_gamma example_lib example_fs fresh ''no_ellipsoid.dem.par'' ''scene.phase''
          ''scene.azi'' ''scene.inc'' ''Sentinel-1'' 1)) \<noteq> None \<and>
   data_para (snd (read_from_gamma example_lib example_fs fresh ''no_ellipsoid.dem.par'' ''scene.phase''
          ''scene.azi'' ''scene.inc'' ''Sentinel-1'' 1)) = None"
  using no_ellipsoid_raises by (auto simp: fresh_def)

section \<open>Geocoding\<close>

lemma length_linspace: "length (linspace a b n) = n"
  by (simp add: linspace_def Let_def)

lemma length_gamma_axis: "length (gamma_axis corner post n) = nat n"
  by (simp add: gamma_axis_def length_linspace)

lemma linspace_nth:
  assumes "j < n"
  shows "linspace (Fin a) (Fin (a + real (n - 1) * p)) n ! j = Fin (a + real j * p)"
proof (cases "n = 1")
  case True
  with assms have "j = 0" by simp
  with True show ?thesis
    by (simp add: linspace_def)
next
  case False
  with assms have n: "1 < n" by simp
  let ?y = "map (\<lambda>k. fadd (fmul (Fin (real k)) (fdiv (fsub (Fin (a + real (n - 1) * p)) (Fin a))
      (Fin (real (n - 1))))) (Fin a)) [0..<n]"
  from n have lin: "linspace (Fin a) (Fin (a + real (n - 1) * p)) n = ?y[n - 1 := Fin (a + real (n - 1) * p)]"
    by (simp add: linspace_def Let_def)
  from n have r: "real (n - 1) \<noteq> 0" by simp
  show ?thesis
  proof (cases "j = n - 1")
    case True
    with n show ?thesis
      unfolding lin by simp
  next
    case False
    then have "?y[n - 1 := Fin (a + real (n - 1) * p)] ! j = ?y ! j"
      by simp
    also from assms have "\<dots> = Fin (real j * (real (n - 1) * p / real (n - 1)) + a)"
      by simp
    also from r have "\<dots> = Fin (a + real j * p)"
      by simp
    finally show ?thesis
      unfolding lin .
  qed
qed

lemma concat_mesh_lons:
  assumes "length lons = w"
  shows "concat (replicate h lons) = map (\<lambda>m. lons ! (m mod w)) [0..<h * w]"
proof -
  have "replicate h lons = map (\<lambda>i. map (\<lambda>j. lons ! ((i * w + j) mod w)) [0..<w]) [0..<h]"
    using assms by (auto simp: list_eq_iff_nth_eq)
  then show ?thesis
    by (simp only: concat_rows[of "\<lambda>m. lons ! (m mod w)" w h])
qed

lemma concat_mesh_lats:
  assumes "length lats = h"
  shows "concat (map (\<lambda>lat. replicate w lat) lats) = map (\<lambda>m. lats ! (m div w)) [0..<h * w]"
proof -
  have "map (\<lambda>lat. replicate w lat) lats =
        map (\<lambda>i. map (\<lambda>j. lats ! ((i * w + j) div w)) [0..<w]) [0..<h]"
    using assms by (auto simp: list_eq_iff_nth_eq)
  then show ?thesis
    by (simp only: concat_rows[of "\<lambda>m. lats ! (m div w)" w h])
qed

lemma gamma_axis_nth:
  assumes "j < nat n"
  shows "gamma_axis (Fin a) (Fin p) n ! j = Fin (a + real j * p)"
proof -
  from assms have "0 < n" by simp
  then have "int (nat n - 1) = n - 1" by simp
  then have e: "real_of_int (n - 1) = real (nat n - 1)"
    by (metis of_int_of_nat_eq)
  have "gamma_axis (Fin a) (Fin p) n = linspace (Fin a) (Fin (a + real_of_int (n - 1) * p)) (nat n)"
    unfolding gamma_axis_def of_pyint_def fop2.simps ..
  also have "\<dots> = linspace (Fin a) (Fin (a + real (nat n - 1) * p)) (nat n)"
    by (simp only: e)
  finally show ?thesis
    by (simp only: linspace_nth[OF assms])
qed

lemma mesh_columns:
  "concat (fst (gamma_mesh clat plat clon plon W H)) =
     map (\<lambda>m. gamma_axis clon plon W ! (m mod nat W)) [0..<nat H * nat W]"
  "concat (snd (gamma_mesh clat plat clon plon W H)) =
     map (\<lambda>m. gamma_axis clat plat H ! (m div nat W)) [0..<nat H * nat W]"
  by (simp_all add: gamma_mesh_def meshgrid_def Let_def length_gamma_axis
      concat_mesh_lons[OF length_gamma_axis] concat_mesh_lats[OF length_gamma_axis])

lemma upt2: "[0..<2] = [0, 1]"
  by (simp add: upt_rec)

lemma axis_examples:
  "gamma_axis (Fin 20) (Fin (1 / 1000)) 2 = [Fin 20, Fin (20001 / 1000)]"
  "gamma_axis (Fin 10) (Fin (- (1 / 1000))) 1 = [Fin 10]"
  "gamma_axis (Fin 10) (Fin (- (1 / 1000))) 2 = [Fin 10, Fin (9999 / 1000)]"
  by (simp_all add: gamma_axis_def linspace_def of_pyint_def Let_def upt2)


lemma mesh_stride:
  assumes "0 < step" and "k < (nat H * nat W + nat step - 1) div nat step"
  shows "stride step (concat (fst (gamma_mesh clat plat clon plon W H))) ! k =
           gamma_axis clon plon W ! ((k * nat step) mod nat W)"
    and "stride step (concat (snd (gamma_mesh clat plat clon plon W H))) ! k =
           gamma_axis clat plat H ! ((k * nat step) div nat W)"
proof -
  let ?lon = "map (\<lambda>m. gamma_axis clon plon W ! (m mod nat W)) [0..<nat H * nat W]"
  let ?lat = "map (\<lambda>m. gamma_axis clat plat H ! (m div nat W)) [0..<nat H * nat W]"
  have len: "length ?lon = nat H * nat W" "length ?lat = nat H * nat W"
    by (simp_all only: length_map length_upt diff_zero)
  from assms(2) have k: "k < (length ?lon + nat step - 1) div nat step"
    "k < (length ?lat + nat step - 1) div nat step"
    by (simp_all only: len)
  note lon = stride_pos(2)[OF assms(1) k(1)] and lat = stride_pos(2)[OF assms(1) k(2)]
  from lon have b: "k * nat step < nat H * nat W"
    by (simp only: len)
  then have c: "k * nat step < length [0..<nat H * nat W]" "0 + k * nat step < nat H * nat W"
    by (simp_all only: length_upt diff_zero add_0)
  have "?lon ! (k * nat step) = gamma_axis clon plon W ! ((k * nat step) mod nat W)"
    by (simp only: nth_map[OF c(1)] nth_upt[OF c(2)] add_0)
  with lon show "stride step (concat (fst (gamma_mesh clat plat clon plon W H))) ! k =
           gamma_axis clon plon W ! ((k * nat step) mod nat W)"
    by (simp only: mesh_columns)
  have "?lat ! (k * nat step) = gamma_axis clat plat H ! ((k * nat step) div nat W)"
    by (simp only: nth_map[OF c(1)] nth_upt[OF c(2)] add_0)
  with lat show "stride step (concat (snd (gamma_mesh clat plat clon plon W H))) ! k =
           gamma_axis clat plat H ! ((k * nat step) div nat W)"
    by (simp only: mesh_columns)
qed

lemma mesh_stride_length:
  assumes "0 < step"
  shows "length (stride step (concat (fst (gamma_mesh clat plat clon plon W H)))) =
           (nat H * nat W + nat step - 1) div nat step"
    and "length (stride step (concat (snd (gamma_mesh clat plat clon plon W H)))) =
           (nat H * nat W + nat step - 1) div nat step"
  unfolding mesh_columns by (simp_all add: stride_pos(1)[OF assms])

lemma mesh_rows:
  "fst (gamma_mesh clat plat clon plon W H) = replicate (nat H) (gamma_axis clon plon W)"
  "snd (gamma_mesh clat plat clon plon W H) = map (replicate (nat W)) (gamma_axis clat plat H)"
  by (simp_all add: gamma_mesh_def meshgrid_def Let_def length_gamma_axis)


lemma phase2los_Inr:
  "(phase2los phase satellite = Inr los) =
     (\<exists>freq. radar_freq satellite = Inr freq \<and> los = map (los_of (speed_of_light / freq)) phase)"
  by (auto simp: phase2los_def bind_err_Inr Let_def)

lemma gamma_dataset_channels:
  assumes "gamma_dataset L fs v phase_file azi_file inc_file satellite downsample = Inr d"
  obtains f1 f2 f3 W H pixels clat plat clon plon freq xs ys where
    "fs_bin fs phase_file = Some f1" "fs_bin fs azi_file = Some f2" "fs_bin fs inc_file = Some f3"
    "v_width v = Some W" "v_nlines v = Some H"
    "read_pixels (unpack_f L) (nat H * nat W) f1 f2 f3 = Inr pixels"
    "v_corner_lat v = Some clat" "v_post_lat v = Some plat"
    "v_corner_lon v = Some clon" "v_post_lon v = Some plon"
    "radar_freq satellite = Inr freq"
    "ll2xy L (stride downsample (concat (fst (gamma_mesh clat plat clon plon W H))))
       (stride downsample (concat (snd (gamma_mesh clat plat clon plon W H)))) = Inr (xs, ys)"
    "d ''phase'' = Some \<lparr>ch_value = stride downsample (transpose_flat (nat W) (nat H)
        (where_zero_nan (fill (nat W) (nat H) (map fst pixels)) (fill (nat W) (nat H) (map fst pixels)))),
        ch_unit = ''radian''\<rparr>"
    "d ''los'' = Some \<lparr>ch_value = map (los_of (speed_of_light / freq))
        (stride downsample (transpose_flat (nat W) (nat H)
          (where_zero_nan (fill (nat W) (nat H) (map fst pixels))
             (fill (nat W) (nat H) (map fst pixels))))),
        ch_unit = ''m''\<rparr>"
    "d ''azi'' = Some \<lparr>ch_value = map (\<lambda>a. fsub (Fin (- 180)) (degrees a))
        (stride downsample (transpose_flat (nat W) (nat H)
          (where_zero_nan (fill (nat W) (nat H) (map fst pixels))
             (fill (nat W) (nat H) (map (fst \<circ> snd) pixels))))),
        ch_unit = ''degree''\<rparr>"
    "d ''inc'' = Some \<lparr>ch_value = map (\<lambda>a. fsub (Fin 90) (degrees a))
        (stride downsample (transpose_flat (nat W) (nat H)
          (where_zero_nan (fill (nat W) (nat H) (map fst pixels))
             (fill (nat W) (nat H) (map (snd \<circ> snd) pixels))))),
        ch_unit = ''degree''\<rparr>"
    "d ''lon'' = Some \<lparr>ch_value = stride downsample (concat (fst (gamma_mesh clat plat clon plon W H))),
        ch_unit = ''degree''\<rparr>"
    "d ''lat'' = Some \<lparr>ch_value = stride downsample (concat (snd (gamma_mesh clat plat clon plon W H))),
        ch_unit = ''degree''\<rparr>"
    "d ''x'' = Some \<lparr>ch_value = xs, ch_unit = ''km''\<rparr>"
    "d ''y'' = Some \<lparr>ch_value = ys, ch_unit = ''km''\<rparr>"
proof -
  from assms obtain f1 f2 f3 where f: "fs_bin fs phase_file = Some f1" "fs_bin fs azi_file = Some f2"
    "fs_bin fs inc_file = Some f3"
    unfolding gamma_dataset_def by (auto split: option.splits)
  from assms show ?thesis
    unfolding gamma_dataset_def f option.case
    by (auto simp: bind_err_Inr local_var_Inr phase2los_Inr Let_def split: if_splits prod.splits
        intro!: that[OF f])
qed

lemma gamma_scan_strip:
  "gamma_scan example_lib strip_par unbound =
     Inr \<lparr>v_width = Some 3, v_nlines = Some 2, v_corner_lat = Some (Fin 10),
          v_corner_lon = Some (Fin 20), v_post_lat = Some (Fin (- 1 / 1000)),
          v_post_lon = Some (Fin (1 / 1000)), v_ellipsoid_name = Some ''WGS 84''\<rparr>"
  by (simp add: strip_par_def example_lib_def gamma_line_def unbound_def parse_simps)

lemma gamma_para_strip:
  "gamma_para example_lib example_fs ''strip.dem.par'' =
     Inr \<lparr>v_width = Some 3, v_nlines = Some 2, v_corner_lat = Some (Fin 10),
          v_corner_lon = Some (Fin 20), v_post_lat = Some (Fin (- 1 / 1000)),
          v_post_lon = Some (Fin (1 / 1000)), v_ellipsoid_name = Some ''WGS 84''\<rparr>"
  by (simp add: gamma_para_def example_fs_def gamma_scan_strip local_var_def)

lemma strip_files:
  "fs_bin example_fs ''strip.phase'' = Some strip_phase_bin"
  "fs_bin example_fs ''strip.azi'' = Some strip_azi_bin"
  "fs_bin example_fs ''strip.inc'' = Some strip_inc_bin"
  by (simp_all add: example_fs_def)

lemma strip_completes:
  "\<exists>d. read_from_gamma example_lib example_fs fresh ''strip.dem.par'' ''strip.phase'' ''strip.azi''
          ''strip.inc'' ''Sentinel-1'' 2 =
        (Completed, \<lparr>data = Some d,
           data_para = Some [''satellite'' \<mapsto> ''Sentinel-1'', ''datum_name'' \<mapsto> ''WGS 84'']\<rparr>)"
proof -
  let ?v = "\<lparr>v_width = Some 3, v_nlines = Some 2, v_corner_lat = Some (Fin 10),
          v_corner_lon = Some (Fin 20), v_post_lat = Some (Fin (- 1 / 1000)),
          v_post_lon = Some (Fin (1 / 1000)), v_ellipsoid_name = Some ''WGS 84''\<rparr>"
  have "\<exists>d. gamma_dataset example_lib example_fs ?v ''strip.phase'' ''strip.azi'' ''strip.inc''
           ''Sentinel-1'' 2 = Inr d"
  proof (rule gamma_dataset_succeeds[OF strip_files, of ?v 3 2])
    show "radar_freq ''Sentinel-1'' = Inr (540500045433 / 100)"
      by (rule radar_freq_values)
  qed (simp_all add: strip_phase_bin_def strip_azi_bin_def strip_inc_bin_def phase_bin_def azi_bin_def
      inc_bin_def example_lib_def)
  then obtain d where "gamma_dataset example_lib example_fs ?v ''strip.phase'' ''strip.azi'' ''strip.inc''
           ''Sentinel-1'' 2 = Inr d" ..
  then show ?thesis
    by (simp add: read_from_gamma_def gamma_para_strip fresh_def local_var_def)
qed

lemma strip_chunks:
  "be_float32 (chunk_at 0 strip_phase_bin) = Fin 0"
  "be_float32 (chunk_at 4 strip_phase_bin) = Fin 1"
  "be_float32 (chunk_at 4 strip_azi_bin) = Fin 1"
  "be_float32 (chunk_at 4 strip_inc_bin) = Fin (1 / 2)"
  by (simp_all add: chunk_at_def strip_phase_bin_def strip_azi_bin_def strip_inc_bin_def phase_bin_def
      azi_bin_def inc_bin_def be_float32_def)

text \<open>
  C9, as the code has it. The longitudes are \<open>width\<close> evenly spaced values from
  \<^verbatim>\<open>corner_lon\<close> to \<^verbatim>\<open>corner_lon + (width - 1) * post_lon\<close>, repeated in each of the
  \<open>height\<close> rows of the mesh; the latitudes are \<open>height\<close> evenly spaced values from
  \<^verbatim>\<open>corner_lat\<close> to \<^verbatim>\<open>corner_lat + (height - 1) * post_lat\<close>, each filling the
  \<open>width\<close> entries of its row. After a call that ran to its end with a positive
  \<^verbatim>\<open>downsample\<close>, index \<open>k\<close> of every channel belongs to the pixel that is float number
  \<open>m = k * downsample\<close> of the rasters, range sample \<open>m mod width\<close> on azimuth line
  \<open>m div width\<close>: lon and lat hold its coordinates, phase, azi and inc its masked and
  converted samples, los the line of sight of the phase at the same index, and x and y
  are what the projection returns for the lon and lat columns.
\<close>

theorem geocoding_alignment:
  assumes run: "read_from_gamma L fs self para_file phase_file azi_file inc_file satellite downsample =
      (Completed, self')"
    and step: "0 < downsample"
  shows "\<exists>v W H clat plat clon plon f1 f2 f3 freq d lon lat x y phase los azi inc.
      gamma_para L fs para_file = Inr v \<and>
      v_width v = Some W \<and> v_nlines v = Some H \<and>
      v_corner_lat v = Some clat \<and> v_post_lat v = Some plat \<and>
      v_corner_lon v = Some clon \<and> v_post_lon v = Some plon \<and>
      fs_bin fs phase_file = Some f1 \<and> fs_bin fs azi_file = Some f2 \<and> fs_bin fs inc_file = Some f3 \<and>
      radar_freq satellite = Inr freq \<and>
      data self' = Some d \<and>
      d ''lon'' = Some lon \<and> d ''lat'' = Some lat \<and> d ''x'' = Some x \<and> d ''y'' = Some y \<and>
      d ''phase'' = Some phase \<and> d ''los'' = Some los \<and> d ''azi'' = Some azi \<and> d ''inc'' = Some inc \<and>
      fst (gamma_mesh clat plat clon plon W H) = replicate (nat H) (gamma_axis clon plon W) \<and>
      snd (gamma_mesh clat plat clon plon W H) = map (replicate (nat W)) (gamma_axis clat plat H) \<and>
      length (gamma_axis clon plon W) = nat W \<and>
      length (gamma_axis clat plat H) = nat H \<and>
      (\<forall>a p j. clon = Fin a \<longrightarrow> plon = Fin p \<longrightarrow> j < nat W \<longrightarrow>
         gamma_axis clon plon W ! j = Fin (a + real j * p)) \<and>
      (\<forall>a p i. clat = Fin a \<longrightarrow> plat = Fin p \<longrightarrow> i < nat H \<longrightarrow>
         gamma_axis clat plat H ! i = Fin (a + real i * p)) \<and>
      ll2xy L (ch_value lon) (ch_value lat) = Inr (ch_value x, ch_value y) \<and>
      length (ch_value lon) = (nat H * nat W + nat downsample - 1) div nat downsample \<and>
      length (ch_value lat) = (nat H * nat W + nat downsample - 1) div nat downsample \<and>
      length (ch_value phase) = (nat H * nat W + nat downsample - 1) div nat downsample \<and>
      length (ch_value los) = (nat H * nat W + nat downsample - 1) div nat downsample \<and>
      length (ch_value azi) = (nat H * nat W + nat downsample - 1) div nat downsample \<and>
      length (ch_value inc) = (nat H * nat W + nat downsample - 1) div nat downsample \<and>
      (\<forall>k<(nat H * nat W + nat downsample - 1) div nat downsample.
         ch_value lon ! k = gamma_axis clon plon W ! ((k * nat downsample) mod nat W) \<and>
         ch_value lat ! k = gamma_axis clat plat H ! ((k * nat downsample) div nat W) \<and>
         ch_value phase ! k =
           (if is_zero (unpack_f L (chunk_at (k * nat downsample) f1)) then NaN
            else unpack_f L (chunk_at (k * nat downsample) f1)) \<and>
         ch_value los ! k = los_of (speed_of_light / freq) (ch_value phase ! k) \<and>
         ch_value azi ! k =
           fsub (Fin (- 180)) (degrees
             (if is_zero (unpack_f L (chunk_at (k * nat downsample) f1)) then NaN
              else unpack_f L (chunk_at (k * nat downsample) f2))) \<and>
         ch_value inc ! k =
           fsub (Fin 90) (degrees
             (if is_zero (unpack_f L (chunk_at (k * nat downsample) f1)) then NaN
              else unpack_f L (chunk_at (k * nat downsample) f3))))"
proof -
  from run obtain v d ellps_name where
    v: "gamma_para L fs para_file = Inr v"
    and d: "gamma_dataset L fs v phase_file azi_file inc_file satellite downsample = Inr d"
    and s: "self' = self\<lparr>data := Some d,
       data_para := Some [''satellite'' \<mapsto> satellite, ''datum_name'' \<mapsto> ellps_name]\<rparr>"
    by (rule read_from_gamma_CompletedE)
  from d obtain f1 f2 f3 W H pixels clat plat clon plon freq xs ys where
    f: "fs_bin fs phase_file = Some f1" "fs_bin fs azi_file = Some f2" "fs_bin fs inc_file = Some f3"
    and wh: "v_width v = Some W" "v_nlines v = Some H"
    and px: "read_pixels (unpack_f L) (nat H * nat W) f1 f2 f3 = Inr pixels"
    and c: "v_corner_lat v = Some clat" "v_post_lat v = Some plat"
      "v_corner_lon v = Some clon" "v_post_lon v = Some plon"
    and fr: "radar_freq satellite = Inr freq"
    and xy: "ll2xy L (stride downsample (concat (fst (gamma_mesh clat plat clon plon W H))))
       (stride downsample (concat (snd (gamma_mesh clat plat clon plon W H)))) = Inr (xs, ys)"
    and ph: "d ''phase'' = Some \<lparr>ch_value = stride downsample (transpose_flat (nat W) (nat H)
        (where_zero_nan (fill (nat W) (nat H) (map fst pixels)) (fill (nat W) (nat H) (map fst pixels)))),
        ch_unit = ''radian''\<rparr>"
    and lo: "d ''los'' = Some \<lparr>ch_value = map (los_of (speed_of_light / freq))
        (stride downsample (transpose_flat (nat W) (nat H)
          (where_zero_nan (fill (nat W) (nat H) (map fst pixels))
             (fill (nat W) (nat H) (map fst pixels))))),
        ch_unit = ''m''\<rparr>"
    and az: "d ''azi'' = Some \<lparr>ch_value = map (\<lambda>a. fsub (Fin (- 180)) (degrees a))
        (stride downsample (transpose_flat (nat W) (nat H)
          (where_zero_nan (fill (nat W) (nat H) (map fst pixels))
             (fill (nat W) (nat H) (map (fst \<circ> snd) pixels))))),
        ch_unit = ''degree''\<rparr>"
    and ic: "d ''inc'' = Some \<lparr>ch_value = map (\<lambda>a. fsub (Fin 90) (degrees a))
        (stride downsample (transpose_flat (nat W) (nat H)
          (where_zero_nan (fill (nat W) (nat H) (map fst pixels))
             (fill (nat W) (nat H) (map (snd \<circ> snd) pixels))))),
        ch_unit = ''degree''\<rparr>"
    and ln: "d ''lon'' = Some \<lparr>ch_value = stride downsample (concat (fst (gamma_mesh clat plat clon plon W H))),
        ch_unit = ''degree''\<rparr>"
    and la: "d ''lat'' = Some \<lparr>ch_value = stride downsample (concat (snd (gamma_mesh clat plat clon plon W H))),
        ch_unit = ''degree''\<rparr>"
    and dx: "d ''x'' = Some \<lparr>ch_value = xs, ch_unit = ''km''\<rparr>"
    and dy: "d ''y'' = Some \<lparr>ch_value = ys, ch_unit = ''km''\<rparr>"
    by (rule gamma_dataset_channels)
  let ?n = "(nat H * nat W + nat downsample - 1) div nat downsample"
  let ?P = "map fst pixels" and ?A = "map (fst \<circ> snd) pixels" and ?I = "map (snd \<circ> snd) pixels"
  let ?phase = "stride downsample (transpose_flat (nat W) (nat H)
        (where_zero_nan (fill (nat W) (nat H) ?P) (fill (nat W) (nat H) ?P)))"
  let ?azi = "stride downsample (transpose_flat (nat W) (nat H)
        (where_zero_nan (fill (nat W) (nat H) ?P) (fill (nat W) (nat H) ?A)))"
  let ?inc = "stride downsample (transpose_flat (nat W) (nat H)
        (where_zero_nan (fill (nat W) (nat H) ?P) (fill (nat W) (nat H) ?I)))"
  let ?lon = "stride downsample (concat (fst (gamma_mesh clat plat clon plon W H)))"
  let ?lat = "stride downsample (concat (snd (gamma_mesh clat plat clon plon W H)))"
  let ?los = "map (los_of (speed_of_light / freq)) ?phase"
  let ?azd = "map (\<lambda>a. fsub (Fin (- 180)) (degrees a)) ?azi"
  let ?icd = "map (\<lambda>a. fsub (Fin 90) (degrees a)) ?inc"
  let ?pc = "\<lparr>ch_value = ?phase, ch_unit = ''radian''\<rparr>"
  let ?lc = "\<lparr>ch_value = ?los, ch_unit = ''m''\<rparr>"
  let ?ac = "\<lparr>ch_value = ?azd, ch_unit = ''degree''\<rparr>"
  let ?ic = "\<lparr>ch_value = ?icd, ch_unit = ''degree''\<rparr>"
  let ?loc = "\<lparr>ch_value = ?lon, ch_unit = ''degree''\<rparr>"
  let ?lac = "\<lparr>ch_value = ?lat, ch_unit = ''degree''\<rparr>"
  let ?xc = "\<lparr>ch_value = xs, ch_unit = ''km''\<rparr>"
  let ?yc = "\<lparr>ch_value = ys, ch_unit = ''km''\<rparr>"
  have vals: "ch_value ?pc = ?phase" "ch_value ?lc = ?los" "ch_value ?ac = ?azd" "ch_value ?ic = ?icd"
    "ch_value ?loc = ?lon" "ch_value ?lac = ?lat" "ch_value ?xc = xs" "ch_value ?yc = ys"
    by simp_all
  have len: "length ?phase = ?n" "length ?azi = ?n" "length ?inc = ?n"
    by (simp_all only: masked_stride_length[OF step])
  have cells: "\<forall>k<?n.
         ?lon ! k = gamma_axis clon plon W ! ((k * nat downsample) mod nat W) \<and>
         ?lat ! k = gamma_axis clat plat H ! ((k * nat downsample) div nat W) \<and>
         ?phase ! k =
           (if is_zero (unpack_f L (chunk_at (k * nat downsample) f1)) then NaN
            else unpack_f L (chunk_at (k * nat downsample) f1)) \<and>
         ?los ! k = los_of (speed_of_light / freq) (?phase ! k) \<and>
         ?azd ! k =
           fsub (Fin (- 180)) (degrees
             (if is_zero (unpack_f L (chunk_at (k * nat downsample) f1)) then NaN
              else unpack_f L (chunk_at (k * nat downsample) f2))) \<and>
         ?icd ! k =
           fsub (Fin 90) (degrees
             (if is_zero (unpack_f L (chunk_at (k * nat downsample) f1)) then NaN
              else unpack_f L (chunk_at (k * nat downsample) f3)))"
  proof (intro allI impI)
    fix k
    assume k: "k < ?n"
    from masked_stride(2)[OF step k] have m: "k * nat downsample < nat H * nat W" .
    note nth = pixels_nth[OF px m]
    from k len have kl: "k < length ?phase" "k < length ?azi" "k < length ?inc"
      by (simp_all only:)
    have p: "?phase ! k =
           (if is_zero (unpack_f L (chunk_at (k * nat downsample) f1)) then NaN
            else unpack_f L (chunk_at (k * nat downsample) f1))"
      unfolding masked_stride(1)[OF step k] nth ..
    have a: "?azi ! k =
           (if is_zero (unpack_f L (chunk_at (k * nat downsample) f1)) then NaN
            else unpack_f L (chunk_at (k * nat downsample) f2))"
      unfolding masked_stride(1)[OF step k] nth ..
    have i: "?inc ! k =
           (if is_zero (unpack_f L (chunk_at (k * nat downsample) f1)) then NaN
            else unpack_f L (chunk_at (k * nat downsample) f3))"
      unfolding masked_stride(1)[OF step k] nth ..
    show "?lon ! k = gamma_axis clon plon W ! ((k * nat downsample) mod nat W) \<and>
         ?lat ! k = gamma_axis clat plat H ! ((k * nat downsample) div nat W) \<and>
         ?phase ! k =
           (if is_zero (unpack_f L (chunk_at (k * nat downsample) f1)) then NaN
            else unpack_f L (chunk_at (k * nat downsample) f1)) \<and>
         ?los ! k = los_of (speed_of_light / freq) (?phase ! k) \<and>
         ?azd ! k =
           fsub (Fin (- 180)) (degrees
             (if is_zero (unpack_f L (chunk_at (k * nat downsample) f1)) then NaN
              else unpack_f L (chunk_at (k * nat downsample) f2))) \<and>
         ?icd ! k =
           fsub (Fin 90) (degrees
             (if is_zero (unpack_f L (chunk_at (k * nat downsample) f1)) then NaN
              else unpack_f L (chunk_at (k * nat downsample) f3)))"
      unfolding nth_map[OF kl(1)] nth_map[OF kl(2)] nth_map[OF kl(3)] a i
      using p mesh_stride[OF step k] by (intro conjI) (rule refl | assumption)+
  qed
  have even_lon: "\<forall>a p j. clon = Fin a \<longrightarrow> plon = Fin p \<longrightarrow> j < nat W \<longrightarrow>
         gamma_axis clon plon W ! j = Fin (a + real j * p)"
    by (auto simp: gamma_axis_nth)
  have even_lat: "\<forall>a p i. clat = Fin a \<longrightarrow> plat = Fin p \<longrightarrow> i < nat H \<longrightarrow>
         gamma_axis clat plat H ! i = Fin (a + real i * p)"
    by (auto simp: gamma_axis_nth)
  have "gamma_para L fs para_file = Inr v \<and>
      v_width v = Some W \<and> v_nlines v = Some H \<and>
      v_corner_lat v = Some clat \<and> v_post_lat v = Some plat \<and>
      v_corner_lon v = Some clon \<and> v_post_lon v = Some plon \<and>
      fs_bin fs phase_file = Some f1 \<and> fs_bin fs azi_file = Some f2 \<and> fs_bin fs inc_file = Some f3 \<and>
      radar_freq satellite = Inr freq \<and>
      data self' = Some d \<and>
      d ''lon'' = Some ?loc \<and> d ''lat'' = Some ?lac \<and> d ''x'' = Some ?xc \<and> d ''y'' = Some ?yc \<and>
      d ''phase'' = Some ?pc \<and> d ''los'' = Some ?lc \<and> d ''azi'' = Some ?ac \<and> d ''inc'' = Some ?ic \<and>
      fst (gamma_mesh clat plat clon plon W H) = replicate (nat H) (gamma_axis clon plon W) \<and>
      snd (gamma_mesh clat plat clon plon W H) = map (replicate (nat W)) (gamma_axis clat plat H) \<and>
      length (gamma_axis clon plon W) = nat W \<and>
      length (gamma_axis clat plat H) = nat H \<and>
      (\<forall>a p j. clon = Fin a \<longrightarrow> plon = Fin p \<longrightarrow> j < nat W \<longrightarrow>
         gamma_axis clon plon W ! j = Fin (a + real j * p)) \<and>
      (\<forall>a p i. clat = Fin a \<longrightarrow> plat = Fin p \<longrightarrow> i < nat H \<longrightarrow>
         gamma_axis clat plat H ! i = Fin (a + real i * p)) \<and>
      ll2xy L (ch_value ?loc) (ch_value ?lac) = Inr (ch_value ?xc, ch_value ?yc) \<and>
      length (ch_value ?loc) = ?n \<and>
      length (ch_value ?lac) = ?n \<and>
      length (ch_value ?pc) = ?n \<and>
      length (ch_value ?lc) = ?n \<and>
      length (ch_value ?ac) = ?n \<and>
      length (ch_value ?ic) = ?n \<and>
      (\<forall>k<?n.
         ch_value ?loc ! k = gamma_axis clon plon W ! ((k * nat downsample) mod nat W) \<and>
         ch_value ?lac ! k = gamma_axis clat plat H ! ((k * nat downsample) div nat W) \<and>
         ch_value ?pc ! k =
           (if is_zero (unpack_f L (chunk_at (k * nat downsample) f1)) then NaN
            else unpack_f L (chunk_at (k * nat downsample) f1)) \<and>
         ch_value ?lc ! k = los_of (speed_of_light / freq) (ch_value ?pc ! k) \<and>
         ch_value ?ac ! k =
           fsub (Fin (- 180)) (degrees
             (if is_zero (unpack_f L (chunk_at (k * nat downsample) f1)) then NaN
              else unpack_f L (chunk_at (k * nat downsample) f2))) \<and>
         ch_value ?ic ! k =
           fsub (Fin 90) (degrees
             (if is_zero (unpack_f L (chunk_at (k * nat downsample) f1)) then NaN
              else unpack_f L (chunk_at (k * nat downsample) f3))))"
    unfolding vals
  proof (intro conjI)
    show "data self' = Some d" using s by simp
    show "length ?lon = ?n" by (rule mesh_stride_length(1)[OF step])
    show "length ?lat = ?n" by (rule mesh_stride_length(2)[OF step])
    show "length ?phase = ?n" by (rule len(1))
    show "length ?los = ?n" by (simp only: length_map len)
    show "length ?azd = ?n" by (simp only: length_map len)
    show "length ?icd = ?n" by (simp only: length_map len)
  qed (fact v wh c f fr xy ln la dx dy ph lo az ic mesh_rows length_gamma_axis even_lon even_lat cells)+
  then show ?thesis
    apply -
    apply (rule exI)+
    apply assumption
    done
qed

theorem geocoding_alignment_witness:
  "\<exists>s'. read_from_gamma example_lib example_fs fresh ''strip.dem.par'' ''strip.phase'' ''strip.azi''
          ''strip.inc'' ''Sentinel-1'' 2 = (Completed, s') \<and>
        (0::int) < 2 \<and>
        (\<exists>d lon lat x y phase los azi inc.
           data s' = Some d \<and>
           d ''lon'' = Some lon \<and> d ''lat'' = Some lat \<and> d ''x'' = Some x \<and> d ''y'' = Some y \<and>
           d ''phase'' = Some phase \<and> d ''los'' = Some los \<and> d ''azi'' = Some azi \<and> d ''inc'' = Some inc \<and>
           length (ch_value lon) = 3 \<and> length (ch_value lat) = 3 \<and> length (ch_value phase) = 3 \<and>
           length (ch_value los) = 3 \<and> length (ch_value azi) = 3 \<and> length (ch_value inc) = 3 \<and>
           ch_value x = ch_value lon \<and> ch_value y = ch_value lat \<and>
           ch_value lon ! 0 = Fin 20 \<and> ch_value lat ! 0 = Fin 10 \<and>
           ch_value lon ! 1 = Fin (20002 / 1000) \<and> ch_value lat ! 1 = Fin 10 \<and>
           ch_value lon ! 2 = Fin (20001 / 1000) \<and> ch_value lat ! 2 = Fin (9999 / 1000) \<and>
           ch_value phase ! 0 = NaN \<and> ch_value los ! 0 = NaN \<and>
           ch_value azi ! 0 = NaN \<and> ch_value inc ! 0 = NaN \<and>
           ch_value phase ! 2 = Fin 1 \<and>
           ch_value los ! 2 = los_of (speed_of_light / (540500045433 / 100)) (Fin 1) \<and>
           ch_value azi ! 2 = Fin (- 180 - 180 / pi) \<and>
           ch_value inc ! 2 = Fin (90 - 90 / pi))"
proof -
  from strip_completes obtain d0 where
    run: "read_from_gamma example_lib example_fs fresh ''strip.dem.par'' ''strip.phase'' ''strip.azi''
          ''strip.inc'' ''Sentinel-1'' 2 =
        (Completed, \<lparr>data = Some d0,
           data_para = Some [''satellite'' \<mapsto> ''Sentinel-1'', ''datum_name'' \<mapsto> ''WGS 84'']\<rparr>)"
    by blast
  let ?s = "\<lparr>data = Some d0,
           data_para = Some [''satellite'' \<mapsto> ''Sentinel-1'', ''datum_name'' \<mapsto> ''WGS 84'']\<rparr>"
  have two: "(0::int) < 2" by simp
  from geocoding_alignment[OF run two]
  obtain v W H clat plat clon plon f1 f2 f3 freq d lon lat x y phase los azi inc where
    v: "gamma_para example_lib example_fs ''strip.dem.par'' = Inr v"
      "v_width v = Some W" "v_nlines v = Some H"
      "v_corner_lat v = Some clat" "v_post_lat v = Some plat"
      "v_corner_lon v = Some clon" "v_post_lon v = Some plon"
    and f: "fs_bin example_fs ''strip.phase'' = Some f1" "fs_bin example_fs ''strip.azi'' = Some f2"
      "fs_bin example_fs ''strip.inc'' = Some f3"
    and fr: "radar_freq ''Sentinel-1'' = Inr freq"
    and d: "data ?s = Some d" "d ''lon'' = Some lon" "d ''lat'' = Some lat" "d ''x'' = Some x"
      "d ''y'' = Some y" "d ''phase'' = Some phase" "d ''los'' = Some los" "d ''azi'' = Some azi"
      "d ''inc'' = Some inc"
    and even: "\<forall>a p j. clon = Fin a \<longrightarrow> plon = Fin p \<longrightarrow> j < nat W \<longrightarrow>
         gamma_axis clon plon W ! j = Fin (a + real j * p)"
      "\<forall>a p i. clat = Fin a \<longrightarrow> plat = Fin p \<longrightarrow> i < nat H \<longrightarrow>
         gamma_axis clat plat H ! i = Fin (a + real i * p)"
    and xy: "ll2xy example_lib (ch_value lon) (ch_value lat) = Inr (ch_value x, ch_value y)"
    and len: "length (ch_value lon) = (nat H * nat W + nat 2 - 1) div nat 2"
      "length (ch_value lat) = (nat H * nat W + nat 2 - 1) div nat 2"
      "length (ch_value phase) = (nat H * nat W + nat 2 - 1) div nat 2"
      "length (ch_value los) = (nat H * nat W + nat 2 - 1) div nat 2"
      "length (ch_value azi) = (nat H * nat W + nat 2 - 1) div nat 2"
      "length (ch_value inc) = (nat H * nat W + nat 2 - 1) div nat 2"
    and cells: "\<forall>k<(nat H * nat W + nat 2 - 1) div nat 2.
         ch_value lon ! k = gamma_axis clon plon W ! ((k * nat 2) mod nat W) \<and>
         ch_value lat ! k = gamma_axis clat plat H ! ((k * nat 2) div nat W) \<and>
         ch_value phase ! k =
           (if is_zero (unpack_f example_lib (chunk_at (k * nat 2) f1)) then NaN
            else unpack_f example_lib (chunk_at (k * nat 2) f1)) \<and>
         ch_value los ! k = los_of (speed_of_light / freq) (ch_value phase ! k) \<and>
         ch_value azi ! k =
           fsub (Fin (- 180)) (degrees
             (if is_zero (unpack_f example_lib (chunk_at (k * nat 2) f1)) then NaN
              else unpack_f example_lib (chunk_at (k * nat 2) f2))) \<and>
         ch_value inc ! k =
           fsub (Fin 90) (degrees
             (if is_zero (unpack_f example_lib (chunk_at (k * nat 2) f1)) then NaN
              else unpack_f example_lib (chunk_at (k * nat 2) f3)))"
    by (elim exE conjE)
  from v gamma_para_strip have w: "W = 3" "H = 2" "clat = Fin 10" "plat = Fin (- (1 / 1000))"
    "clon = Fin 20" "plon = Fin (1 / 1000)" by auto
  from f strip_files have g: "f1 = strip_phase_bin" "f2 = strip_azi_bin" "f3 = strip_inc_bin"
    by simp_all
  from fr radar_freq_values(2) have q: "freq = 540500045433 / 100" by simp
  have u: "unpack_f example_lib = be_float32" by (simp add: example_lib_def)
  from len w have l3: "length (ch_value lon) = 3" "length (ch_value lat) = 3"
    "length (ch_value phase) = 3" "length (ch_value los) = 3" "length (ch_value azi) = 3"
    "length (ch_value inc) = 3" by simp_all
  from xy have p: "ch_value x = ch_value lon" "ch_value y = ch_value lat"
    by (simp_all add: example_lib_def)
  have ax: "gamma_axis clon plon 3 ! 0 = Fin 20" "gamma_axis clon plon 3 ! 1 = Fin (20001 / 1000)"
    "gamma_axis clon plon 3 ! 2 = Fin (20002 / 1000)"
    using even(1)[rule_format, OF w(5) w(6), of 0] even(1)[rule_format, OF w(5) w(6), of 1]
      even(1)[rule_format, OF w(5) w(6), of 2] w(1) by simp_all
  have ay: "gamma_axis clat plat 2 ! 0 = Fin 10" "gamma_axis clat plat 2 ! 1 = Fin (9999 / 1000)"
    using even(2)[rule_format, OF w(3) w(4), of 0] even(2)[rule_format, OF w(3) w(4), of 1] w(2)
    by simp_all
  from cells[rule_format, of 0] w(1,2)
  have c0: "ch_value lon ! 0 = Fin 20 \<and> ch_value lat ! 0 = Fin 10 \<and> ch_value phase ! 0 = NaN \<and>
      ch_value los ! 0 = NaN \<and> ch_value azi ! 0 = NaN \<and> ch_value inc ! 0 = NaN"
    by (simp add: u g strip_chunks ax ay degrees_def los_of_def)
  from cells[rule_format, of 1] w(1,2)
  have c1: "ch_value lon ! 1 = Fin (20002 / 1000) \<and> ch_value lat ! 1 = Fin 10"
    by (simp add: ax ay)
  from cells[rule_format, of 2] w(1,2)
  have c2: "ch_value lon ! 2 = Fin (20001 / 1000) \<and> ch_value lat ! 2 = Fin (9999 / 1000) \<and>
      ch_value phase ! 2 = Fin 1 \<and>
      ch_value los ! 2 = los_of (speed_of_light / (540500045433 / 100)) (Fin 1) \<and>
      ch_value azi ! 2 = Fin (- 180 - 180 / pi) \<and> ch_value inc ! 2 = Fin (90 - 90 / pi)"
    by (simp add: u g q strip_chunks ax[unfolded One_nat_def] ay[unfolded One_nat_def] degrees_def)
  have "data ?s = Some d \<and>
           d ''lon'' = Some lon \<and> d ''lat'' = Some lat \<and> d ''x'' = Some x \<and> d ''y'' = Some y \<and>
           d ''phase'' = Some phase \<and> d ''los'' = Some los \<and> d ''azi'' = Some azi \<and> d ''inc'' = Some inc \<and>
           length (ch_value lon) = 3 \<and> length (ch_value lat) = 3 \<and> length (ch_value phase) = 3 \<and>
           length (ch_value los) = 3 \<and> length (ch_value azi) = 3 \<and> length (ch_value inc) = 3 \<and>
           ch_value x = ch_value lon \<and> ch_value y = ch_value lat \<and>
           ch_value lon ! 0 = Fin 20 \<and> ch_value lat ! 0 = Fin 10 \<and>
           ch_value lon ! 1 = Fin (20002 / 1000) \<and> ch_value lat ! 1 = Fin 10 \<and>
           ch_value lon ! 2 = Fin (20001 / 1000) \<and> ch_value lat ! 2 = Fin (9999 / 1000) \<and>
           ch_value phase ! 0 = NaN \<and> ch_value los ! 0 = NaN \<and>
           ch_value azi ! 0 = NaN \<and> ch_value inc ! 0 = NaN \<and>
           ch_value phase ! 2 = Fin 1 \<and>
           ch_value los ! 2 = los_of (speed_of_light / (540500045433 / 100)) (Fin 1) \<and>
           ch_value azi ! 2 = Fin (- 180 - 180 / pi) \<and>
           ch_value inc ! 2 = Fin (90 - 90 / pi)"
    using d l3 p c0 c1 c2 by (intro conjI) (elim conjE, assumption)+
  then have "\<exists>d lon lat x y phase los azi inc. data ?s = Some d \<and>
           d ''lon'' = Some lon \<and> d ''lat'' = Some lat \<and> d ''x'' = Some x \<and> d ''y'' = Some y \<and>
           d ''phase'' = Some phase \<and> d ''los'' = Some los \<and> d ''azi'' = Some azi \<and> d ''inc'' = Some inc \<and>
           length (ch_value lon) = 3 \<and> length (ch_value lat) = 3 \<and> length (ch_value phase) = 3 \<and>
           length (ch_value los) = 3 \<and> length (ch_value azi) = 3 \<and> length (ch_value inc) = 3 \<and>
           ch_value x = ch_value lon \<and> ch_value y = ch_value lat \<and>
           ch_value lon ! 0 = Fin 20 \<and> ch_value lat ! 0 = Fin 10 \<and>
           ch_value lon ! 1 = Fin (20002 / 1000) \<and> ch_value lat ! 1 = Fin 10 \<and>
           ch_value lon ! 2 = Fin (20001 / 1000) \<and> ch_value lat ! 2 = Fin (9999 / 1000) \<and>
           ch_value phase ! 0 = NaN \<and> ch_value los ! 0 = NaN \<and>
           ch_value azi ! 0 = NaN \<and> ch_value inc ! 0 = NaN \<and>
           ch_value phase ! 2 = Fin 1 \<and>
           ch_value los ! 2 = los_of (speed_of_light / (540500045433 / 100)) (Fin 1) \<and>
           ch_value azi ! 2 = Fin (- 180 - 180 / pi) \<and>
           ch_value inc ! 2 = Fin (90 - 90 / pi)"
    apply -
    apply (rule exI)+
    apply assumption
    done
  with run two show ?thesis
    by (intro exI[of _ ?s] conjI)
qed

text \<open>C9 as stated has \<open>height\<close> longitudes in each of \<open>width\<close> rows. For two range
  samples and one azimuth line the code builds one row of two longitudes, the wording two
  rows of one.\<close>

theorem mesh_differs_from_spec_wording:
  "fst (gamma_mesh (Fin 10) (Fin (- 1 / 1000)) (Fin 20) (Fin (1 / 1000)) 2 1) =
     [[Fin 20, Fin (20001 / 1000)]] \<and>
   spec_lon_mesh (Fin 20) (Fin (1 / 1000)) 2 1 = [[Fin 20], [Fin 20]]"
proof -
  have "fst (gamma_mesh (Fin 10) (Fin (- 1 / 1000)) (Fin 20) (Fin (1 / 1000)) 2 1) =
     [[Fin 20, Fin (20001 / 1000)]]"
    by (simp add: gamma_mesh_def meshgrid_def axis_examples)
  moreover have "linspace (Fin 20) (Fin (20001 / 1000)) 1 = [Fin 20]"
    by (simp add: linspace_def)
  then have "spec_lon_mesh (Fin 20) (Fin (1 / 1000)) 2 1 = [[Fin 20], [Fin 20]]"
    by (simp add: spec_lon_mesh_def of_pyint_def numeral_2_eq_2)
  ultimately show ?thesis by blast
qed

end
